theory Spec2Isabelle
  imports Complex_Main "HOL-Library.Word"
begin

section \<open>The IDS peak camera adapter (IDSPeak.cpp): data model\<close>

text \<open>
  The adapter class \<open>CIDSPeak\<close> is a record of the member variables that the verified
  operations read or write, named without the trailing underscore of the source.
  C++ \<open>unsigned\<close> is a 32-bit word (arithmetic wraps, comparison and \<open>%\<close> are unsigned);
  \<open>long\<close> members hold sensor dimensions, counts and times and are integers;
  \<open>double\<close> members are IEEE doubles with their rounding, infinities and NaN.
  The pixel array of the image buffer is not modelled, only its dimensions.
\<close>

type_synonym uint = "32 word"

subsection \<open>Double precision arithmetic\<close>

text \<open>
  A \<open>double\<close> is a finite value (a real number that has 53 significant bits and an
  exponent in range; \<open>Finite 0\<close> is the positive zero), the negative zero, an infinity
  or NaN. Every operation computes the exact result and rounds it to the nearest
  double, to the one with an even last bit when two are equally near, as the default
  rounding mode of IEEE 754 does.
\<close>

datatype double = Finite real | MinusZero | PlusInfinity | MinusInfinity | NaN

text \<open>The number of binary digits of a natural number.\<close>

fun bit_length :: "nat \<Rightarrow> nat" where
  "bit_length n = (if n = 0 then 0 else Suc (bit_length (n div 2)))"

declare bit_length.simps [simp del]

definition pow2 :: "int \<Rightarrow> real" where
  "pow2 k = (if 0 \<le> k then 2 ^ nat k else 1 / 2 ^ nat (- k))"

text \<open>
  For \<open>a > 0\<close>, \<open>binary_exponent a\<close> is the \<open>e\<close> with \<open>2 ^ e \<le> a < 2 ^ (e + 1)\<close>.
  A double with exponent \<open>e\<close> is a multiple of \<open>2 ^ (e - 52)\<close>; below the least normal
  exponent \<open>- 1022\<close> the spacing stays \<open>2 ^ (- 1074)\<close>. \<open>round_magnitude\<close> rounds a positive
  real to the nearest such multiple.
\<close>

definition binary_exponent :: "real \<Rightarrow> int" where
  "binary_exponent a =
     (if 1 \<le> a then int (bit_length (nat \<lfloor>a\<rfloor>)) - 1
      else - int (bit_length (nat (\<lceil>1 / a\<rceil> - 1))))"

definition round_half_even :: "real \<Rightarrow> int" where
  "round_half_even q =
     (let n = \<lfloor>q\<rfloor>; d = q - of_int n in
      if d < 1 / 2 then n else if 1 / 2 < d then n + 1
      else if even n then n else n + 1)"

definition round_magnitude :: "real \<Rightarrow> real" where
  "round_magnitude a =
     (let ulp = pow2 (max (binary_exponent a) (- 1022) - 52)
      in of_int (round_half_even (a / ulp)) * ulp)"

text \<open>The double nearest to a real number: what an operation returns for its exact
  result, and what the compiler makes of a decimal literal.\<close>

definition fl :: "real \<Rightarrow> double" where
  "fl x =
     (if x = 0 then Finite 0
      else
        let r = round_magnitude \<bar>x\<bar> in
        if pow2 1024 \<le> r then (if x < 0 then MinusInfinity else PlusInfinity)
        else if r = 0 then (if x < 0 then MinusZero else Finite 0)
        else Finite (if x < 0 then - r else r))"

definition is_negative :: "double \<Rightarrow> bool" where
  "is_negative d =
     (case d of Finite x \<Rightarrow> x < 0 | MinusZero \<Rightarrow> True | MinusInfinity \<Rightarrow> True
      | _ \<Rightarrow> False)"

definition is_zero :: "double \<Rightarrow> bool" where
  "is_zero d = (case d of Finite x \<Rightarrow> x = 0 | MinusZero \<Rightarrow> True | _ \<Rightarrow> False)"

definition is_infinite :: "double \<Rightarrow> bool" where
  "is_infinite d = (d = PlusInfinity \<or> d = MinusInfinity)"

definition finite_value :: "double \<Rightarrow> real" where
  "finite_value d = (case d of Finite x \<Rightarrow> x | _ \<Rightarrow> 0)"

definition signed_zero :: "bool \<Rightarrow> double" where
  "signed_zero neg = (if neg then MinusZero else Finite 0)"

definition signed_infinity :: "bool \<Rightarrow> double" where
  "signed_infinity neg = (if neg then MinusInfinity else PlusInfinity)"

text \<open>\<open>a + b\<close>, \<open>a * b\<close> and \<open>a / b\<close> on doubles.\<close>

definition dadd :: "double \<Rightarrow> double \<Rightarrow> double" where
  "dadd a b =
     (if a = NaN \<or> b = NaN then NaN
      else if is_infinite a then (if is_infinite b \<and> b \<noteq> a then NaN else a)
      else if is_infinite b then b
      else if finite_value a + finite_value b = 0
        then signed_zero (is_negative a \<and> is_negative b)
      else fl (finite_value a + finite_value b))"

definition dmul :: "double \<Rightarrow> double \<Rightarrow> double" where
  "dmul a b =
     (if a = NaN \<or> b = NaN then NaN
      else if is_infinite a \<or> is_infinite b then
        (if is_zero a \<or> is_zero b then NaN
         else signed_infinity (is_negative a \<noteq> is_negative b))
      else if is_zero a \<or> is_zero b then signed_zero (is_negative a \<noteq> is_negative b)
      else fl (finite_value a * finite_value b))"

definition ddiv :: "double \<Rightarrow> double \<Rightarrow> double" where
  "ddiv a b =
     (if a = NaN \<or> b = NaN then NaN
      else if is_infinite a then
        (if is_infinite b then NaN else signed_infinity (is_negative a \<noteq> is_negative b))
      else if is_infinite b then signed_zero (is_negative a \<noteq> is_negative b)
      else if is_zero b then
        (if is_zero a then NaN else signed_infinity (is_negative a \<noteq> is_negative b))
      else if is_zero a then signed_zero (is_negative a \<noteq> is_negative b)
      else fl (finite_value a / finite_value b))"

text \<open>\<open>a < b\<close>, \<open>a <= b\<close>, \<open>a > b\<close> and \<open>a >= b\<close> on doubles: false when an operand is NaN;
  the two zeros are equal.\<close>

definition dless :: "double \<Rightarrow> double \<Rightarrow> bool" where
  "dless a b =
     (if a = NaN \<or> b = NaN then False
      else if a = PlusInfinity \<or> b = MinusInfinity then False
      else if a = MinusInfinity \<or> b = PlusInfinity then True
      else finite_value a < finite_value b)"

definition dle :: "double \<Rightarrow> double \<Rightarrow> bool" where
  "dle a b =
     (if a = NaN \<or> b = NaN then False
      else if a = MinusInfinity \<or> b = PlusInfinity then True
      else if a = PlusInfinity \<or> b = MinusInfinity then False
      else finite_value a \<le> finite_value b)"

definition dgreater :: "double \<Rightarrow> double \<Rightarrow> bool" where
  "dgreater a b = dless b a"

definition dge :: "double \<Rightarrow> double \<Rightarrow> bool" where
  "dge a b = dle b a"

text \<open>\<open>ceil\<close> of the C library: the least integral double not below its argument (a
  negative zero for arguments in \<open>(- 1, 0)\<close>).\<close>

definition dceil :: "double \<Rightarrow> double" where
  "dceil a =
     (case a of
        Finite x \<Rightarrow> (if \<lceil>x\<rceil> = 0 then signed_zero (x < 0) else Finite (of_int \<lceil>x\<rceil>))
      | _ \<Rightarrow> a)"

subsection \<open>Codes, camera and host\<close>

text \<open>Return codes of the device interface and of this adapter (IDSPeak.h), by name.\<close>

datatype mm_code =
    DEVICE_OK
  | DEVICE_ERR
  | DEVICE_INVALID_PROPERTY
  | DEVICE_UNSUPPORTED_DATA_FORMAT
  | DEVICE_INTERNAL_INCONSISTENCY
  | DEVICE_BUFFER_OVERFLOW
  | DEVICE_CAMERA_BUSY_ACQUIRING
  | DEVICE_CAN_NOT_SET_PROPERTY
  | ERR_NO_READ_ACCESS
  | ERR_ACQ_START
  | ERR_ACQ_FRAME
  | ERR_ACQ_RELEASE
  | ERR_ACQ_TIMEOUT
  | ERR_NO_WRITE_ACCESS

text \<open>Status and access values of the camera SDK, as far as the adapter tests them.\<close>

datatype peak_status =
    PEAK_STATUS_SUCCESS
  | PEAK_STATUS_ERROR
  | PEAK_STATUS_TIMEOUT
  | PEAK_STATUS_ABORTED

datatype peak_access_status =
    PEAK_ACCESS_NONE
  | PEAK_ACCESS_READONLY
  | PEAK_ACCESS_WRITEONLY
  | PEAK_ACCESS_READWRITE

record peak_roi =
  offset_x :: uint
  offset_y :: uint
  size_width :: uint
  size_height :: uint

text \<open>
  The commands the adapter sends to the camera, in the order it sends them, as far as
  the verified properties speak of them. \<open>Acquisition_Start None\<close> is the start with
  \<open>PEAK_INFINITE\<close>; \<open>Acquisition_WaitForFrame\<close> carries the timeout in milliseconds.
\<close>

datatype peak_call =
    ROI_Set peak_roi
  | ExposureTime_Set double
  | FrameRate_Set double
  | Acquisition_Start "uint option"
  | Acquisition_WaitForFrame uint
  | Acquisition_Stop

text \<open>
  The camera behind the handle \<open>hCam\<close>. The SDK is an external library: the answers it
  gives are fields of this record, and every command is appended to \<open>calls\<close>.
  \<open>exposure_apply\<close> is the camera's own adjustment of a written exposure time and
  \<open>exposure_time\<close> the value it reports back, both in microseconds.
\<close>

record peak_camera =
  roi_access :: peak_access_status
  roi_set_status :: peak_status
  exposure_access :: peak_access_status
  exposure_set_status :: peak_status
  exposure_get_status :: peak_status
  exposure_apply :: "double \<Rightarrow> double"
  exposure_time :: double
  framerate_set_status :: peak_status
  acquisition_start_status :: peak_status
  acquisition_stop_status :: peak_status
  calls :: "peak_call list"

definition peak_ROI_GetAccessStatus :: "peak_camera \<Rightarrow> peak_access_status" where
  "peak_ROI_GetAccessStatus h = roi_access h"

definition peak_ROI_Set :: "peak_camera \<Rightarrow> peak_roi \<Rightarrow> peak_status \<times> peak_camera" where
  "peak_ROI_Set h roi = (roi_set_status h, h\<lparr>calls := calls h @ [ROI_Set roi]\<rparr>)"

text \<open>The image buffer \<open>ImgBuffer\<close>, with a field for each of its accessors: width, height
  and bytes per pixel. \<open>Resize\<close> sets them.\<close>

record ImgBuffer =
  Width :: uint
  Height :: uint
  Depth :: uint

definition Resize :: "ImgBuffer \<Rightarrow> uint \<Rightarrow> uint \<Rightarrow> ImgBuffer" where
  "Resize b xSize ySize = b\<lparr>Width := xSize, Height := ySize\<rparr>"

definition Resize3 :: "ImgBuffer \<Rightarrow> uint \<Rightarrow> uint \<Rightarrow> uint \<Rightarrow> ImgBuffer" where
  "Resize3 b xSize ySize d = b\<lparr>Width := xSize, Height := ySize, Depth := d\<rparr>"

text \<open>
  The answers of the host framework (property store and core callback), which is not
  part of the adapter: the return code and the parsed value of
  \<open>GetProperty(MM::g_Keyword_Binning, buf)\<close>, the return code of \<open>PrepareForAcq\<close>, the
  time \<open>GetCurrentMMTime()\<close> in microseconds, and whether \<open>GetDevice\<close> finds the
  trigger device. The adapter's calls of the core callback are recorded in order.
\<close>

record mm_core =
  GetProperty_Binning_ret :: mm_code
  GetProperty_Binning_val :: int
  PrepareForAcq_ret :: mm_code
  GetCurrentMMTime :: int
  trigger_device_found :: bool

datatype core_call = PrepareForAcq | Trigger | InsertImage_call | ClearImageBuffer | AcqFinished

text \<open>
  The sequence thread \<open>MySequenceThread\<close>. \<open>active\<close> is the state of the thread of the
  base class: \<open>activate()\<close> starts it and it ends when \<open>svc\<close> returns. The frame
  counter of the thread is \<open>thd_imageCounter\<close>, to tell it from the adapter's.
\<close>

record MySequenceThread =
  intervalMs :: double
  numImages :: int
  thd_imageCounter :: int
  stop :: bool
  suspend :: bool
  startTime :: int
  actualDuration :: int
  lastFrameTime :: int
  active :: bool

record CIDSPeak =
  hCam :: peak_camera
  status :: peak_status
  exposureMin :: double
  exposureMax :: double
  exposureInc :: double
  exposureCur :: double
  framerateCur :: double
  framerateMax :: double
  framerateMin :: double
  framerateInc :: double
  img :: ImgBuffer
  bitDepth :: int
  nComponents :: int
  roiX :: uint
  roiY :: uint
  roiInc :: uint
  roiMinSizeX :: uint
  roiMinSizeY :: uint
  binSize :: int
  cameraCCDXSize :: int
  cameraCCDYSize :: int
  multiROIXs :: "uint list"
  multiROIYs :: "uint list"
  multiROIWidths :: "uint list"
  multiROIHeights :: "uint list"
  sequenceStartTime :: int
  imageCounter :: int
  stopOnOverflow :: bool
  triggerDevice :: string
  thd :: MySequenceThread
  core_calls :: "core_call list"

text \<open>
  A C++ integer division by zero, and a read or write past the end of an array or
  vector, have no defined result; the model stops with a fault instead of returning.
  The conversion of a \<open>double\<close> to \<open>uint32_t\<close> truncates towards zero and has no
  defined result when the truncated value is not a 32-bit number.
\<close>

datatype fault = DivisionByZero | OutOfBounds | Unrepresentable

text \<open>Division of \<open>long\<close> values truncates towards zero.\<close>

definition long_div :: "int \<Rightarrow> int \<Rightarrow> int" where
  "long_div a b = sgn a * sgn b * (\<bar>a\<bar> div \<bar>b\<bar>)"

section \<open>Geometry: ROI\<close>

definition ResizeImageBuffer :: "mm_core \<Rightarrow> CIDSPeak \<Rightarrow> fault + (mm_code \<times> CIDSPeak)" where
  "ResizeImageBuffer core cam =
     (let nRet = GetProperty_Binning_ret core in
      if nRet \<noteq> DEVICE_OK then Inr (nRet, cam)
      else
        let cam1 = cam\<lparr>binSize := GetProperty_Binning_val core\<rparr> in
        if binSize cam1 = 0 then Inl DivisionByZero
        else Inr (DEVICE_OK,
          cam1\<lparr>img := Resize3 (img cam1)
            (word_of_int (long_div (cameraCCDXSize cam1) (binSize cam1)))
            (word_of_int (long_div (cameraCCDYSize cam1) (binSize cam1)))
            (word_of_int (nComponents cam1 * long_div (bitDepth cam1) 8))\<rparr>))"

text \<open>The tail of \<open>SetROI\<close>: the rectangle is pushed to the camera, the answer is stored
  in \<open>status\<close> and not looked at.\<close>

definition push_roi :: "CIDSPeak \<Rightarrow> uint \<Rightarrow> uint \<Rightarrow> CIDSPeak" where
  "push_roi cam xSize ySize =
     (let roi = \<lparr>offset_x = roiX cam, offset_y = roiY cam,
                 size_width = xSize, size_height = ySize\<rparr>;
          (st, h) = peak_ROI_Set (hCam cam) roi
      in cam\<lparr>hCam := h, status := st\<rparr>)"

definition SetROI ::
  "mm_core \<Rightarrow> CIDSPeak \<Rightarrow> uint \<Rightarrow> uint \<Rightarrow> uint \<Rightarrow> uint \<Rightarrow> fault + (mm_code \<times> CIDSPeak)" where
  "SetROI core cam x y xSize ySize =
     (if peak_ROI_GetAccessStatus (hCam cam) = PEAK_ACCESS_READWRITE then
        let cam1 = cam\<lparr>multiROIXs := [], multiROIYs := [],
                       multiROIWidths := [], multiROIHeights := []\<rparr> in
        if xSize = 0 \<and> ySize = 0 then
          (case ResizeImageBuffer core cam1 of
             Inl f \<Rightarrow> Inl f
           | Inr (nRet, cam2) \<Rightarrow>
               if nRet \<noteq> DEVICE_OK then Inr (nRet, cam2)
               else
                 let cam3 = cam2\<lparr>roiX := 0, roiY := 0\<rparr> in
                 Inr (DEVICE_OK,
                      push_roi cam3 (word_of_int (cameraCCDXSize cam3))
                                    (word_of_int (cameraCCDYSize cam3))))
        else if roiInc cam1 = 0 then Inl DivisionByZero
        else
          let xSize1 = (if xSize < roiMinSizeX cam1 then roiMinSizeX cam1 else xSize);
              ySize1 = (if ySize < roiMinSizeY cam1 then roiMinSizeY cam1 else ySize);
              xSize2 = xSize1 - xSize1 mod roiInc cam1;
              ySize2 = ySize1 - ySize1 mod roiInc cam1;
              x1 = (if x + xSize2 > word_of_int (cameraCCDXSize cam1)
                    then word_of_int (cameraCCDXSize cam1) - xSize2 else x);
              y1 = (if y + ySize2 > word_of_int (cameraCCDYSize cam1)
                    then word_of_int (cameraCCDYSize cam1) - ySize2 else y);
              cam2 = cam1\<lparr>img := Resize (img cam1) xSize2 ySize2,
                          roiX := x1, roiY := y1\<rparr>
          in Inr (DEVICE_OK, push_roi cam2 xSize2 ySize2)
      else Inr (DEVICE_CAN_NOT_SET_PROPERTY, cam))"

text \<open>
  The constructors' initial values, for the camera behind the handle; the image buffer
  starts empty, the thread stopped and not running.
\<close>

definition MySequenceThread_new :: MySequenceThread where
  "MySequenceThread_new =
     \<lparr>intervalMs = Finite 100, numImages = 1, thd_imageCounter = 0, stop = True, suspend = False,
      startTime = 0, actualDuration = 0, lastFrameTime = 0, active = False\<rparr>"

definition CIDSPeak_new :: "peak_camera \<Rightarrow> CIDSPeak" where
  "CIDSPeak_new h =
     \<lparr>hCam = h, status = PEAK_STATUS_SUCCESS,
      exposureMin = Finite 0, exposureMax = Finite 10000, exposureInc = Finite 1,
      exposureCur = Finite 10, framerateCur = Finite 10, framerateMax = Finite 200,
      framerateMin = fl 0.1, framerateInc = fl 0.1,
      img = \<lparr>Width = 0, Height = 0, Depth = 0\<rparr>,
      bitDepth = 8, nComponents = 1,
      roiX = 0, roiY = 0, roiInc = 1, roiMinSizeX = 0, roiMinSizeY = 0,
      binSize = 1, cameraCCDXSize = 512, cameraCCDYSize = 512,
      multiROIXs = [], multiROIYs = [], multiROIWidths = [], multiROIHeights = [],
      sequenceStartTime = 0, imageCounter = 0, stopOnOverflow = False, triggerDevice = [],
      thd = MySequenceThread_new, core_calls = []\<rparr>"

definition GetROI :: "CIDSPeak \<Rightarrow> mm_code \<times> uint \<times> uint \<times> uint \<times> uint" where
  "GetROI cam = (DEVICE_OK, roiX cam, roiY cam, Width (img cam), Height (img cam))"

subsection \<open>Concrete cameras and hosts for the scenarios\<close>

text \<open>A camera that grants every access, accepts every command and applies the exposure
  written to it unchanged.\<close>

definition willing_camera :: peak_camera where
  "willing_camera =
     \<lparr>roi_access = PEAK_ACCESS_READWRITE, roi_set_status = PEAK_STATUS_SUCCESS,
      exposure_access = PEAK_ACCESS_READWRITE, exposure_set_status = PEAK_STATUS_SUCCESS,
      exposure_get_status = PEAK_STATUS_SUCCESS, exposure_apply = (\<lambda>v. v),
      exposure_time = Finite 10000, framerate_set_status = PEAK_STATUS_SUCCESS,
      acquisition_start_status = PEAK_STATUS_SUCCESS,
      acquisition_stop_status = PEAK_STATUS_SUCCESS, calls = []\<rparr>"

definition plain_core :: mm_core where
  "plain_core =
     \<lparr>GetProperty_Binning_ret = DEVICE_OK, GetProperty_Binning_val = 1,
      PrepareForAcq_ret = DEVICE_OK, GetCurrentMMTime = 0, trigger_device_found = False\<rparr>"

text \<open>The adapter after initialisation on a 512 x 512 sensor whose ROI size has the
  given minimum (in both directions) and increment.\<close>

definition sensor_512 :: "peak_camera \<Rightarrow> uint \<Rightarrow> uint \<Rightarrow> CIDSPeak" where
  "sensor_512 h minSize inc =
     (CIDSPeak_new h)\<lparr>img := \<lparr>Width = 512, Height = 512, Depth = 1\<rparr>,
        roiInc := inc, roiMinSizeX := minSize, roiMinSizeY := minSize\<rparr>"

text \<open>The code of a call of \<open>SetROI\<close> that returned, with what \<open>GetROI\<close> reports after
  it: offset x, offset y, width and height.\<close>

definition applied_rect ::
  "fault + (mm_code \<times> CIDSPeak) \<Rightarrow> (mm_code \<times> uint \<times> uint \<times> uint \<times> uint) option" where
  "applied_rect r =
     (case r of Inl f \<Rightarrow> None | Inr (c, cam') \<Rightarrow> Some (c, snd (GetROI cam')))"

text \<open>The rectangles the camera has been sent by a call of \<open>SetROI\<close> that returned.\<close>

definition pushed_rects :: "fault + (mm_code \<times> CIDSPeak) \<Rightarrow> peak_call list" where
  "pushed_rects r = (case r of Inl f \<Rightarrow> [] | Inr (c, cam') \<Rightarrow> calls (hCam cam'))"

subsection \<open>What the specification says of an applied ROI\<close>

text \<open>
  The size the specification describes: the request raised to the minimum size, then
  lowered to a multiple of the increment; and the offset it describes: moved back, when
  offset plus size would pass the sensor edge, so that the rectangle ends at the edge.
\<close>

definition spec_size :: "nat \<Rightarrow> nat \<Rightarrow> nat \<Rightarrow> nat" where
  "spec_size minSize inc s = (max s minSize) div inc * inc"

definition spec_offset :: "int \<Rightarrow> int \<Rightarrow> int \<Rightarrow> int" where
  "spec_offset sensor off sz = (if off + sz > sensor then sensor - sz else off)"

text \<open>
  A ROI request is valid when it is not the reset request \<open>(_, _, 0, 0)\<close>, its size
  (raised to the minimum) fits on the sensor, and offset plus size is representable in
  32 bits. The ranges the camera reported are consistent when the increment is not
  zero and the minimum sizes are multiples of it.
\<close>

definition valid_roi_request :: "CIDSPeak \<Rightarrow> uint \<Rightarrow> uint \<Rightarrow> uint \<Rightarrow> uint \<Rightarrow> bool" where
  "valid_roi_request cam x y xSize ySize =
     (\<not> (xSize = 0 \<and> ySize = 0)
      \<and> cameraCCDXSize cam < 2 ^ 32 \<and> cameraCCDYSize cam < 2 ^ 32
      \<and> uint (max xSize (roiMinSizeX cam)) \<le> cameraCCDXSize cam
      \<and> uint (max ySize (roiMinSizeY cam)) \<le> cameraCCDYSize cam
      \<and> uint x + uint (max xSize (roiMinSizeX cam)) < 2 ^ 32
      \<and> uint y + uint (max ySize (roiMinSizeY cam)) < 2 ^ 32)"

definition roi_ranges_consistent :: "CIDSPeak \<Rightarrow> bool" where
  "roi_ranges_consistent cam =
     (roiInc cam \<noteq> 0 \<and> roiMinSizeX cam mod roiInc cam = 0
      \<and> roiMinSizeY cam mod roiInc cam = 0)"

text \<open>The three properties the specification states of the applied rectangle, for both
  directions.\<close>

definition roi_postcondition :: "CIDSPeak \<Rightarrow> CIDSPeak \<Rightarrow> bool" where
  "roi_postcondition cam cam' =
     (Width (img cam') mod roiInc cam = 0
      \<and> roiMinSizeX cam \<le> Width (img cam')
      \<and> uint (roiX cam') + uint (Width (img cam')) \<le> cameraCCDXSize cam
      \<and> Height (img cam') mod roiInc cam = 0
      \<and> roiMinSizeY cam \<le> Height (img cam')
      \<and> uint (roiY cam') + uint (Height (img cam')) \<le> cameraCCDYSize cam)"

subsection \<open>The camera's answer to a pushed ROI\<close>

text \<open>
  The adapter with a camera that answers \<open>st\<close> to \<open>peak_ROI_Set\<close>; and the requests
  on which \<open>SetROI\<close> reaches the push: geometry is writable, and the computation before
  the push neither fails nor divides by zero (the reset request reads the binning
  property and divides by it, any other request divides by the increment).
\<close>

definition with_roi_answer :: "peak_status \<Rightarrow> CIDSPeak \<Rightarrow> CIDSPeak" where
  "with_roi_answer st cam = cam\<lparr>hCam := (hCam cam)\<lparr>roi_set_status := st\<rparr>\<rparr>"

definition roi_request_runs :: "mm_core \<Rightarrow> CIDSPeak \<Rightarrow> uint \<Rightarrow> uint \<Rightarrow> bool" where
  "roi_request_runs core cam xSize ySize =
     (peak_ROI_GetAccessStatus (hCam cam) = PEAK_ACCESS_READWRITE
      \<and> (if xSize = 0 \<and> ySize = 0
         then GetProperty_Binning_ret core = DEVICE_OK \<and> GetProperty_Binning_val core \<noteq> 0
         else roiInc cam \<noteq> 0))"

section \<open>Geometry: multiple ROIs\<close>

text \<open>
  \<open>SetMultiROI\<close> receives four arrays and their common length \<open>numROIs\<close>. The loop
  variables are the adapter (whose four vectors grow by \<open>push_back\<close>) and the running
  corners of the bounding box; \<open>UINT_MAX\<close> is the largest \<open>unsigned\<close>.
\<close>

definition UINT_MAX :: uint where
  "UINT_MAX = - 1"

record multiROI_loop_state =
  lcam :: CIDSPeak
  minX :: uint
  minY :: uint
  maxX :: uint
  maxY :: uint

definition SetMultiROI_body ::
  "uint list \<Rightarrow> uint list \<Rightarrow> uint list \<Rightarrow> uint list \<Rightarrow> nat
     \<Rightarrow> multiROI_loop_state \<Rightarrow> multiROI_loop_state" where
  "SetMultiROI_body xs ys widths heights i s =
     \<lparr>lcam = (lcam s)\<lparr>multiROIXs := multiROIXs (lcam s) @ [xs ! i],
                       multiROIYs := multiROIYs (lcam s) @ [ys ! i],
                       multiROIWidths := multiROIWidths (lcam s) @ [widths ! i],
                       multiROIHeights := multiROIHeights (lcam s) @ [heights ! i]\<rparr>,
      minX = (if minX s > xs ! i then xs ! i else minX s),
      minY = (if minY s > ys ! i then ys ! i else minY s),
      maxX = (if xs ! i + widths ! i > maxX s then xs ! i + widths ! i else maxX s),
      maxY = (if ys ! i + heights ! i > maxY s then ys ! i + heights ! i else maxY s)\<rparr>"

definition SetMultiROI ::
  "CIDSPeak \<Rightarrow> uint list \<Rightarrow> uint list \<Rightarrow> uint list \<Rightarrow> uint list \<Rightarrow> uint
     \<Rightarrow> fault + (mm_code \<times> CIDSPeak)" where
  "SetMultiROI cam xs ys widths heights numROIs =
     (if length xs < unat numROIs \<or> length ys < unat numROIs
         \<or> length widths < unat numROIs \<or> length heights < unat numROIs
      then Inl OutOfBounds
      else
        let cam1 = cam\<lparr>multiROIXs := [], multiROIYs := [],
                       multiROIWidths := [], multiROIHeights := []\<rparr>;
            s = fold (SetMultiROI_body xs ys widths heights) [0 ..< unat numROIs]
                  \<lparr>lcam = cam1, minX = UINT_MAX, minY = UINT_MAX, maxX = 0, maxY = 0\<rparr>
        in Inr (DEVICE_OK,
             (lcam s)\<lparr>img := Resize (img (lcam s)) (maxX s - minX s) (maxY s - minY s),
                      roiX := minX s, roiY := minY s\<rparr>))"

text \<open>
  \<open>GetMultiROI\<close> writes into four arrays of the caller, which promises them
  \<open>length\<close> entries long, and returns them with the new \<open>length\<close>.
\<close>

definition GetMultiROI_body ::
  "CIDSPeak \<Rightarrow> nat \<Rightarrow> uint list \<times> uint list \<times> uint list \<times> uint list
     \<Rightarrow> uint list \<times> uint list \<times> uint list \<times> uint list" where
  "GetMultiROI_body cam i a =
     (case a of (xs, ys, widths, heights) \<Rightarrow>
        (xs[i := multiROIXs cam ! i], ys[i := multiROIYs cam ! i],
         widths[i := multiROIWidths cam ! i], heights[i := multiROIHeights cam ! i]))"

definition GetMultiROI ::
  "CIDSPeak \<Rightarrow> uint list \<Rightarrow> uint list \<Rightarrow> uint list \<Rightarrow> uint list \<Rightarrow> uint
     \<Rightarrow> fault + (mm_code \<times> (uint list \<times> uint list \<times> uint list \<times> uint list) \<times> uint)" where
  "GetMultiROI cam xs ys widths heights len =
     (let roiCount = (word_of_nat (length (multiROIXs cam)) :: uint) in
      if roiCount > len then Inr (DEVICE_INTERNAL_INCONSISTENCY, (xs, ys, widths, heights), len)
      else if length xs < unat roiCount \<or> length ys < unat roiCount
            \<or> length widths < unat roiCount \<or> length heights < unat roiCount
            \<or> length (multiROIXs cam) < unat roiCount \<or> length (multiROIYs cam) < unat roiCount
            \<or> length (multiROIWidths cam) < unat roiCount
            \<or> length (multiROIHeights cam) < unat roiCount
      then Inl OutOfBounds
      else Inr (DEVICE_OK,
             fold (GetMultiROI_body cam) [0 ..< unat roiCount] (xs, ys, widths, heights),
             roiCount))"

text \<open>
  A list of rectangles, given as the four arrays: equally long, fewer than \<open>2 ^ 32\<close>,
  each with its right and lower edge representable in 32 bits. Its bounding box spans
  from the least left (upper) edge to the greatest right (lower) edge.
\<close>

definition rects_ok :: "uint list \<Rightarrow> uint list \<Rightarrow> uint list \<Rightarrow> uint list \<Rightarrow> bool" where
  "rects_ok xs ys widths heights =
     (length xs < 2 ^ 32
      \<and> list_all2 (\<lambda>x w. unat x + unat w < 2 ^ 32) xs widths
      \<and> list_all2 (\<lambda>y h. unat y + unat h < 2 ^ 32) ys heights
      \<and> length ys = length xs)"

definition least_edge :: "uint list \<Rightarrow> nat" where
  "least_edge xs = Min (set (map unat xs))"

definition greatest_edge :: "uint list \<Rightarrow> uint list \<Rightarrow> nat" where
  "greatest_edge xs widths = Max (set (map2 (\<lambda>x w. unat x + unat w) xs widths))"

section \<open>Rate governor: frame rate and exposure\<close>

definition peak_FrameRate_Set :: "peak_camera \<Rightarrow> double \<Rightarrow> peak_status \<times> peak_camera" where
  "peak_FrameRate_Set h v = (framerate_set_status h, h\<lparr>calls := calls h @ [FrameRate_Set v]\<rparr>)"

text \<open>
  \<open>framerateSet\<close>. The test \<open>status != DEVICE_OK\<close> of the source compares the SDK
  status with 0, the value of \<open>PEAK_STATUS_SUCCESS\<close>.
\<close>

definition framerateSet :: "CIDSPeak \<Rightarrow> double \<Rightarrow> mm_code \<times> CIDSPeak" where
  "framerateSet cam interval_ms =
     (let interval1 = (if dless interval_ms (dadd (exposureCur cam) (Finite 0.5))
                       then dadd (exposureCur cam) (Finite 0.5) else interval_ms);
          interval2 = (if dgreater (ddiv (Finite 1000) interval1) (framerateMax cam)
                       then ddiv (Finite 1000) (framerateMax cam) else interval1);
          (st, h) = peak_FrameRate_Set (hCam cam) (ddiv (Finite 1000) interval2);
          cam1 = cam\<lparr>hCam := h, status := st, framerateCur := ddiv (Finite 1000) interval2\<rparr>
      in if st \<noteq> PEAK_STATUS_SUCCESS then (ERR_NO_WRITE_ACCESS, cam1)
         else (DEVICE_OK, cam1))"

definition peak_ExposureTime_GetAccessStatus :: "peak_camera \<Rightarrow> peak_access_status" where
  "peak_ExposureTime_GetAccessStatus h = exposure_access h"

text \<open>A camera that accepts a written exposure time applies its own adjustment of it;
  one that refuses keeps what it had.\<close>

definition peak_ExposureTime_Set :: "peak_camera \<Rightarrow> double \<Rightarrow> peak_status \<times> peak_camera" where
  "peak_ExposureTime_Set h v =
     (exposure_set_status h,
      h\<lparr>calls := calls h @ [ExposureTime_Set v],
        exposure_time := (if exposure_set_status h = PEAK_STATUS_SUCCESS
                          then exposure_apply h v else exposure_time h)\<rparr>)"

definition peak_ExposureTime_Get :: "peak_camera \<Rightarrow> peak_status \<times> double" where
  "peak_ExposureTime_Get h = (exposure_get_status h, exposure_time h)"

text \<open>
  \<open>SetExposure\<close> returns nothing; its parameter \<open>exp\<close> is \<open>exp_ms\<close> here. A failed
  \<open>peak_ExposureTime_Get\<close> leaves \<open>exposureCur_\<close> as it was. The publication of the
  value as a property of the host and the host's \<open>OnExposureChanged\<close> callback are not
  modelled.
\<close>

definition SetExposure :: "CIDSPeak \<Rightarrow> double \<Rightarrow> CIDSPeak" where
  "SetExposure cam exp_ms =
     (let exposureSet =
            dmul (dmul (dceil (ddiv exp_ms (exposureInc cam))) (exposureInc cam)) (Finite 1000) in
      if peak_ExposureTime_GetAccessStatus (hCam cam) = PEAK_ACCESS_READWRITE then
        let (st1, h1) =
              (if dle exp_ms (exposureMin cam)
                 then peak_ExposureTime_Set (hCam cam) (dmul (exposureMin cam) (Finite 1000))
               else if dge exp_ms (exposureMax cam)
                 then peak_ExposureTime_Set (hCam cam) (dmul (exposureMax cam) (Finite 1000))
               else peak_ExposureTime_Set (hCam cam) exposureSet);
            (st2, v) = peak_ExposureTime_Get h1
        in cam\<lparr>hCam := h1, status := st2,
               exposureCur := (if st2 = PEAK_STATUS_SUCCESS then v else exposureCur cam)\<rparr>
      else cam)"


text \<open>The return code and the cached frame rate after a call of \<open>framerateSet\<close>.\<close>

definition code_and_rate :: "mm_code \<times> CIDSPeak \<Rightarrow> mm_code \<times> double" where
  "code_and_rate r = (fst r, framerateCur (snd r))"

text \<open>The adapter after initialisation with a camera whose exposure ranges from
  \<open>lo\<close> to \<open>hi\<close> milliseconds in steps of \<open>inc\<close>.\<close>

definition with_exposure_range :: "double \<Rightarrow> double \<Rightarrow> double \<Rightarrow> CIDSPeak \<Rightarrow> CIDSPeak" where
  "with_exposure_range lo hi inc cam =
     cam\<lparr>exposureMin := lo, exposureMax := hi, exposureInc := inc\<rparr>"


definition camera_after :: "CIDSPeak \<Rightarrow> peak_call list \<times> double" where
  "camera_after cam' = (calls (hCam cam'), exposure_time (hCam cam'))"


section \<open>Acquisition: the sequence thread and its worker loop\<close>

definition Stop :: "MySequenceThread \<Rightarrow> MySequenceThread" where
  "Stop t = t\<lparr>stop := True\<rparr>"

definition IsStopped :: "MySequenceThread \<Rightarrow> bool" where
  "IsStopped t = stop t"

definition IsCapturing :: "CIDSPeak \<Rightarrow> bool" where
  "IsCapturing cam = (\<not> IsStopped (thd cam))"

definition Start :: "int \<Rightarrow> MySequenceThread \<Rightarrow> int \<Rightarrow> double \<Rightarrow> MySequenceThread" where
  "Start now t n intervalMs' =
     t\<lparr>numImages := n, intervalMs := intervalMs', thd_imageCounter := 0,
       stop := False, suspend := False, active := True,
       actualDuration := 0, startTime := now, lastFrameTime := 0\<rparr>"

text \<open>\<open>StartSequenceAcquisition(numImages, interval_ms, stopOnOverflow)\<close>. The code that
  \<open>framerateSet\<close> returns is overwritten by that of \<open>PrepareForAcq\<close> before it is looked
  at.\<close>

definition StartSequenceAcquisition ::
  "mm_core \<Rightarrow> CIDSPeak \<Rightarrow> int \<Rightarrow> double \<Rightarrow> bool \<Rightarrow> mm_code \<times> CIDSPeak" where
  "StartSequenceAcquisition core cam n interval_ms stopOnOverflow' =
     (if IsCapturing cam then (DEVICE_CAMERA_BUSY_ACQUIRING, cam)
      else
        let (nRet0, cam1) = framerateSet cam interval_ms;
            cam2 = cam1\<lparr>core_calls := core_calls cam1 @ [PrepareForAcq]\<rparr>;
            nRet = PrepareForAcq_ret core
        in if nRet \<noteq> DEVICE_OK then (nRet, cam2)
           else (DEVICE_OK,
             cam2\<lparr>sequenceStartTime := GetCurrentMMTime core, imageCounter := 0,
                  thd := Start (GetCurrentMMTime core) (thd cam2) n interval_ms,
                  stopOnOverflow := stopOnOverflow'\<rparr>))"

text \<open>
  The state of the acquisition as the specification names it, read off the two facts
  the code has: the stop flag, and whether the thread is running.
\<close>

datatype acquisition_state = Stopped | Running | Stopping

definition acquisition_state_of :: "CIDSPeak \<Rightarrow> acquisition_state" where
  "acquisition_state_of cam =
     (if \<not> stop (thd cam) then Running
      else if active (thd cam) then Stopping else Stopped)"

text \<open>
  What the camera and the host answer during one pass of the worker loop, and whether
  the foreground has called \<open>Stop()\<close> by the time the loop tests the flag.
\<close>

record frame_event =
  wait_status :: peak_status
  buffer_get_status :: peak_status
  ipl_format_status :: peak_status
  ipl_process_status :: peak_status
  insert_ret :: mm_code
  insert_retry_ret :: mm_code
  release_status :: peak_status
  awb_access :: peak_access_status
  awb_mode_get_status :: peak_status
  stop_requested :: bool

definition double_to_uint32 :: "double \<Rightarrow> fault + uint" where
  "double_to_uint32 d =
     (case d of
        Finite x \<Rightarrow>
          (if - 1 < x \<and> x < 2 ^ 32 then Inr (word_of_int (if x < 0 then 0 else \<lfloor>x\<rfloor>))
           else Inl Unrepresentable)
      | MinusZero \<Rightarrow> Inr 0
      | _ \<Rightarrow> Inl Unrepresentable)"

definition transferBuffer :: "CIDSPeak \<Rightarrow> frame_event \<Rightarrow> mm_code \<times> CIDSPeak" where
  "transferBuffer cam ev =
     (if nComponents cam = 1 then
        let cam1 = cam\<lparr>status := buffer_get_status ev\<rparr> in
        if status cam1 \<noteq> PEAK_STATUS_SUCCESS then (DEVICE_UNSUPPORTED_DATA_FORMAT, cam1)
        else (DEVICE_OK, cam1)
      else if nComponents cam = 4 then
        let cam1 = cam\<lparr>status := ipl_format_status ev\<rparr> in
        if status cam1 \<noteq> PEAK_STATUS_SUCCESS then (DEVICE_UNSUPPORTED_DATA_FORMAT, cam1)
        else
          let cam2 = cam1\<lparr>status := ipl_process_status ev\<rparr> in
          if status cam2 \<noteq> PEAK_STATUS_SUCCESS then (DEVICE_UNSUPPORTED_DATA_FORMAT, cam2)
          else
            let cam3 = cam2\<lparr>status := buffer_get_status ev\<rparr> in
            if status cam3 \<noteq> PEAK_STATUS_SUCCESS then (DEVICE_UNSUPPORTED_DATA_FORMAT, cam3)
            else (DEVICE_OK, cam3)
      else (DEVICE_UNSUPPORTED_DATA_FORMAT, cam))"

definition InsertImage :: "CIDSPeak \<Rightarrow> frame_event \<Rightarrow> mm_code \<times> CIDSPeak" where
  "InsertImage cam ev =
     (let cam1 = cam\<lparr>imageCounter := imageCounter cam + 1,
                     core_calls := core_calls cam @ [InsertImage_call]\<rparr>;
          nRet = insert_ret ev
      in if \<not> stopOnOverflow cam1 \<and> nRet = DEVICE_BUFFER_OVERFLOW
         then (insert_retry_ret ev,
               cam1\<lparr>core_calls := core_calls cam1 @ [ClearImageBuffer, InsertImage_call]\<rparr>)
         else (nRet, cam1))"

text \<open>The gain values that \<open>updateAutoWhiteBalance\<close> refreshes are not modelled; the status
  it tests is that of its last call.\<close>

definition updateAutoWhiteBalance :: "CIDSPeak \<Rightarrow> frame_event \<Rightarrow> mm_code \<times> CIDSPeak" where
  "updateAutoWhiteBalance cam ev =
     (if awb_access ev = PEAK_ACCESS_READONLY \<or> awb_access ev = PEAK_ACCESS_READWRITE then
        let cam1 = cam\<lparr>status := awb_mode_get_status ev\<rparr> in
        if status cam1 = PEAK_STATUS_SUCCESS then (DEVICE_OK, cam1) else (DEVICE_ERR, cam1)
      else (ERR_NO_READ_ACCESS, cam))"

definition peak_Acquisition_WaitForFrame ::
  "peak_camera \<Rightarrow> frame_event \<Rightarrow> uint \<Rightarrow> peak_status \<times> peak_camera" where
  "peak_Acquisition_WaitForFrame h ev timeout_ms =
     (wait_status ev, h\<lparr>calls := calls h @ [Acquisition_WaitForFrame timeout_ms]\<rparr>)"

definition RunSequenceOnThread ::
  "mm_core \<Rightarrow> CIDSPeak \<Rightarrow> frame_event \<Rightarrow> fault + (mm_code \<times> CIDSPeak)" where
  "RunSequenceOnThread core cam ev =
     (let cam1 = (if length (triggerDevice cam) > 0 \<and> trigger_device_found core
                  then cam\<lparr>core_calls := core_calls cam @ [Trigger]\<rparr> else cam) in
      case double_to_uint32 (dadd (ddiv (Finite 3000) (framerateCur cam1)) (Finite 10)) of
        Inl f \<Rightarrow> Inl f
      | Inr three_frame_times_timeout_ms \<Rightarrow>
          let (st, h) = peak_Acquisition_WaitForFrame (hCam cam1) ev three_frame_times_timeout_ms;
              cam2 = cam1\<lparr>hCam := h, status := st\<rparr>
          in if st \<noteq> PEAK_STATUS_SUCCESS then Inr (DEVICE_ERR, cam2)
             else
               let (nRet1, cam3) = transferBuffer cam2 ev in
               if nRet1 \<noteq> DEVICE_OK then Inr (DEVICE_ERR, cam3)
               else
                 let (nRet2, cam4) = InsertImage cam3 ev in
                 if nRet2 \<noteq> DEVICE_OK then Inr (DEVICE_ERR, cam4)
                 else
                   let cam5 = cam4\<lparr>status := release_status ev\<rparr> in
                   if status cam5 \<noteq> PEAK_STATUS_SUCCESS then Inr (DEVICE_ERR, cam5)
                   else Inr (updateAutoWhiteBalance cam5 ev))"

text \<open>\<open>LONG_MAX\<close> of the compiler the adapter is written for, where \<open>long\<close> has 32 bits.\<close>

definition LONG_MAX :: int where
  "LONG_MAX = 2147483647"

definition peak_Acquisition_Start :: "peak_camera \<Rightarrow> uint option \<Rightarrow> peak_status \<times> peak_camera" where
  "peak_Acquisition_Start h n =
     (acquisition_start_status h, h\<lparr>calls := calls h @ [Acquisition_Start n]\<rparr>)"

definition peak_Acquisition_Stop :: "peak_camera \<Rightarrow> peak_status \<times> peak_camera" where
  "peak_Acquisition_Stop h =
     (acquisition_stop_status h, h\<lparr>calls := calls h @ [Acquisition_Stop]\<rparr>)"

text \<open>
  The \<open>do ... while\<close> loop of \<open>svc\<close>, one \<open>frame_event\<close> for each pass. When the events
  are used up and the loop would go on, the result is \<open>None\<close>.
\<close>

fun svc_loop ::
  "mm_core \<Rightarrow> CIDSPeak \<Rightarrow> frame_event list \<Rightarrow> (fault + (mm_code \<times> CIDSPeak)) option" where
  "svc_loop core cam [] = None"
| "svc_loop core cam (ev # evs) =
     (case RunSequenceOnThread core cam ev of
        Inl f \<Rightarrow> Some (Inl f)
      | Inr (nRet, cam1) \<Rightarrow>
          let cam2 = (if stop_requested ev then cam1\<lparr>thd := Stop (thd cam1)\<rparr> else cam1) in
          if nRet = DEVICE_OK \<and> \<not> IsStopped (thd cam2) then
            let cam3 = cam2\<lparr>thd := (thd cam2)\<lparr>thd_imageCounter := thd_imageCounter (thd cam2) + 1\<rparr>\<rparr>
            in if thd_imageCounter (thd cam2) < numImages (thd cam2) - 1
               then svc_loop core cam3 evs
               else Some (Inr (nRet, cam3))
          else Some (Inr (nRet, cam2)))"

definition OnThreadExiting :: "CIDSPeak \<Rightarrow> CIDSPeak" where
  "OnThreadExiting cam = cam\<lparr>core_calls := core_calls cam @ [AcqFinished]\<rparr>"

definition svc ::
  "mm_core \<Rightarrow> CIDSPeak \<Rightarrow> frame_event list \<Rightarrow> (fault + (mm_code \<times> CIDSPeak)) option" where
  "svc core cam evs =
     (let (st, h) = peak_Acquisition_Start (hCam cam)
                      (if numImages (thd cam) = LONG_MAX then None
                       else Some (word_of_int (numImages (thd cam))));
          cam1 = cam\<lparr>hCam := h\<rparr>
      in if st \<noteq> PEAK_STATUS_SUCCESS
         then Some (Inr (ERR_ACQ_START, cam1\<lparr>thd := (thd cam1)\<lparr>active := False\<rparr>\<rparr>))
         else
           (case svc_loop core cam1 evs of
              None \<Rightarrow> None
            | Some (Inl f) \<Rightarrow> Some (Inl f)
            | Some (Inr (nRet, cam2)) \<Rightarrow>
                let cam3 = (if IsStopped (thd cam2)
                            then cam2\<lparr>hCam := snd (peak_Acquisition_Stop (hCam cam2))\<rparr>
                            else cam2);
                    cam4 = cam3\<lparr>thd := (thd cam3)\<lparr>stop := True,
                              actualDuration := GetCurrentMMTime core - startTime (thd cam3)\<rparr>\<rparr>;
                    cam5 = OnThreadExiting cam4
                in Some (Inr (nRet, cam5\<lparr>thd := (thd cam5)\<lparr>active := False\<rparr>\<rparr>))))"

text \<open>
  The handling of the wait in the loop of \<open>SnapImage\<close>, the synchronous capture of one
  frame: the statuses that \<open>peak_Acquisition_WaitForFrame\<close> returns in turn, the number
  of timeouts so far, and the code with which a wait makes \<open>SnapImage\<close> return
  (\<open>None\<close> when the wait ends with a frame or an abort and \<open>SnapImage\<close> goes on to
  transfer and release; the outer \<open>None\<close> when the statuses are used up).
\<close>

fun SnapImage_wait :: "peak_status list \<Rightarrow> nat \<Rightarrow> mm_code option option" where
  "SnapImage_wait [] timeoutCount = None"
| "SnapImage_wait (st # sts) timeoutCount =
     (if st = PEAK_STATUS_TIMEOUT then
        (if timeoutCount + 1 > 99 then Some (Some ERR_ACQ_TIMEOUT)
         else SnapImage_wait sts (timeoutCount + 1))
      else if st = PEAK_STATUS_ABORTED then Some None
      else if st \<noteq> PEAK_STATUS_SUCCESS then Some (Some ERR_ACQ_FRAME)
      else Some None)"

subsection \<open>Concrete runs\<close>

text \<open>An event in which the frame arrives and every step succeeds, and one in which the
  wait for the frame times out.\<close>

definition frame_arrives :: frame_event where
  "frame_arrives =
     \<lparr>wait_status = PEAK_STATUS_SUCCESS, buffer_get_status = PEAK_STATUS_SUCCESS,
      ipl_format_status = PEAK_STATUS_SUCCESS, ipl_process_status = PEAK_STATUS_SUCCESS,
      insert_ret = DEVICE_OK, insert_retry_ret = DEVICE_OK,
      release_status = PEAK_STATUS_SUCCESS, awb_access = PEAK_ACCESS_READWRITE,
      awb_mode_get_status = PEAK_STATUS_SUCCESS, stop_requested = False\<rparr>"

definition wait_times_out :: frame_event where
  "wait_times_out = frame_arrives\<lparr>wait_status := PEAK_STATUS_TIMEOUT\<rparr>"

text \<open>A running acquisition of 100 frames at 100 ms, started on the constructor's
  values; and the same after the foreground has called \<open>Stop()\<close> while the thread is
  still running.\<close>

definition running_100 :: CIDSPeak where
  "running_100 =
     snd (StartSequenceAcquisition plain_core (CIDSPeak_new willing_camera) 100 (Finite 100) False)"

definition stopping_100 :: CIDSPeak where
  "stopping_100 = running_100\<lparr>thd := Stop (thd running_100)\<rparr>"

text \<open>What is observed of a run of the worker: the code \<open>svc\<close> returns, the stop flag,
  the number of waits for a frame, and the number of \<open>AcqFinished\<close> notifications.\<close>

definition is_wait :: "peak_call \<Rightarrow> bool" where
  "is_wait c = (case c of Acquisition_WaitForFrame t \<Rightarrow> True | _ \<Rightarrow> False)"

definition run_summary ::
  "(fault + (mm_code \<times> CIDSPeak)) option \<Rightarrow> (mm_code \<times> bool \<times> nat \<times> nat) option" where
  "run_summary r =
     (case r of
        Some (Inr (c, cam')) \<Rightarrow>
          Some (c, stop (thd cam'), length (filter is_wait (calls (hCam cam'))),
                length (filter (\<lambda>k. k = AcqFinished) (core_calls cam')))
      | _ \<Rightarrow> None)"

text \<open>What a second start must leave alone: target count, interval, both frame
  counters and both start times.\<close>

definition run_parameters :: "CIDSPeak \<Rightarrow> int \<times> double \<times> int \<times> int \<times> int \<times> int" where
  "run_parameters cam =
     (numImages (thd cam), intervalMs (thd cam), thd_imageCounter (thd cam),
      imageCounter cam, startTime (thd cam), sequenceStartTime cam)"

definition code_and_parameters ::
  "mm_code \<times> CIDSPeak \<Rightarrow> mm_code \<times> int \<times> double \<times> int \<times> int \<times> int \<times> int" where
  "code_and_parameters r = (fst r, run_parameters (snd r))"

section \<open>Verified properties\<close>

subsection \<open>Unsigned arithmetic of the ROI computation\<close>

lemma word_mod_le_self: "a mod b \<le> (a::uint)"
  by (simp add: word_le_nat_alt unat_mod)

lemma unat_snap: "unat (a - a mod b) = unat a - unat a mod unat (b::uint)"
  using word_mod_le_self [of a b] by (simp add: unat_sub unat_mod)

lemma snap_mod: "b \<noteq> 0 \<Longrightarrow> (a - a mod b) mod b = (0::uint)"
proof -
  assume b: "b \<noteq> 0"
  have "unat ((a - a mod b) mod b) = 0"
    by (simp add: unat_mod unat_snap)
  then show ?thesis by (simp add: unat_eq_0)
qed

lemma snap_le: "(a - a mod b) \<le> (a::uint)"
  by (simp add: word_le_nat_alt unat_snap)

lemma snap_ge: "m mod b = 0 \<Longrightarrow> m \<le> a \<Longrightarrow> m \<le> a - a mod (b::uint)"
proof -
  assume m: "m mod b = 0" and ma: "m \<le> a"
  have m': "unat m mod unat b = 0" using m by (metis unat_mod unat_0)
  have ma': "unat m \<le> unat a" using ma by (simp add: word_le_nat_alt)
  have "unat m \<le> unat a - unat a mod unat b"
  proof -
    have "unat m = unat b * (unat m div unat b)" using m' by auto
    also have "\<dots> \<le> unat b * (unat a div unat b)" using ma' by (simp add: div_le_mono)
    also have "\<dots> = unat a - unat a mod unat b" by (simp add: minus_mod_eq_mult_div)
    finally show ?thesis .
  qed
  then show ?thesis by (simp add: word_le_nat_alt unat_snap)
qed

lemma snap_spec: "unat (max s m - max s m mod b) = spec_size (unat m) (unat b) (unat (s::uint))"
proof -
  have "unat (max s m) = max (unat s) (unat m)"
    by (simp add: max_def word_le_nat_alt)
  then have "unat (max s m - max s m mod b) = max (unat s) (unat m) - max (unat s) (unat m) mod unat b"
    by (simp only: unat_snap)
  then show ?thesis
    by (simp only: spec_size_def minus_mod_eq_div_mult)
qed

lemma shift_offset:
  fixes x w :: uint
  assumes c: "0 \<le> c" "c < 2 ^ 32" and w: "uint w \<le> c" and nov: "uint x + uint w < 2 ^ 32"
  shows "uint (if x + w > word_of_int c then word_of_int c - w else x) = spec_offset c (uint x) (uint w)"
    and "uint (if x + w > word_of_int c then word_of_int c - w else x) + uint w \<le> c"
proof -
  have uc: "uint (word_of_int c :: uint) = c"
    using c by (simp add: uint_word_of_int take_bit_eq_mod)
  have ux: "uint (x + w) = uint x + uint w"
    using nov by (simp add: uint_add_lem [symmetric])
  have us: "uint ((word_of_int c :: uint) - w) = c - uint w"
  proof -
    have "uint w \<le> uint (word_of_int c :: uint)" using w uc by simp
    then have "uint ((word_of_int c :: uint) - w) = uint (word_of_int c :: uint) - uint w"
      by (simp only: uint_sub_lem)
    then show ?thesis using uc by simp
  qed
  show "uint (if x + w > word_of_int c then word_of_int c - w else x) = spec_offset c (uint x) (uint w)"
    by (simp add: word_less_def uc ux us spec_offset_def)
  show "uint (if x + w > word_of_int c then word_of_int c - w else x) + uint w \<le> c"
    by (simp add: word_less_def uc ux us)
qed

subsection \<open>SetROI\<close>

lemma SetROI_nonreset:
  assumes "peak_ROI_GetAccessStatus (hCam cam) = PEAK_ACCESS_READWRITE"
    and "\<not> (xSize = 0 \<and> ySize = 0)" and "roiInc cam \<noteq> 0"
  shows "SetROI core cam x y xSize ySize =
     (let w = max xSize (roiMinSizeX cam) - max xSize (roiMinSizeX cam) mod roiInc cam;
          h = max ySize (roiMinSizeY cam) - max ySize (roiMinSizeY cam) mod roiInc cam;
          x1 = (if x + w > word_of_int (cameraCCDXSize cam)
                then word_of_int (cameraCCDXSize cam) - w else x);
          y1 = (if y + h > word_of_int (cameraCCDYSize cam)
                then word_of_int (cameraCCDYSize cam) - h else y)
      in Inr (DEVICE_OK,
           cam\<lparr>multiROIXs := [], multiROIYs := [], multiROIWidths := [], multiROIHeights := [],
               img := (img cam)\<lparr>Width := w, Height := h\<rparr>, roiX := x1, roiY := y1,
               hCam := (hCam cam)\<lparr>calls := calls (hCam cam) @
                  [ROI_Set \<lparr>offset_x = x1, offset_y = y1, size_width = w, size_height = h\<rparr>]\<rparr>,
               status := roi_set_status (hCam cam)\<rparr>))"
proof -
  have mx: "(if xSize < roiMinSizeX cam then roiMinSizeX cam else xSize) = max xSize (roiMinSizeX cam)"
    by (auto simp: max_def)
  have my: "(if ySize < roiMinSizeY cam then roiMinSizeY cam else ySize) = max ySize (roiMinSizeY cam)"
    by (auto simp: max_def)
  have nr: "(xSize = 0 \<and> ySize = 0) = False"
    using assms(2) by simp
  show ?thesis
    unfolding SetROI_def push_roi_def peak_ROI_Set_def Resize_def Let_def
    by (simp add: mx my nr assms(1) assms(3))
qed

lemma SetROI_reset:
  assumes "peak_ROI_GetAccessStatus (hCam cam) = PEAK_ACCESS_READWRITE"
    and "GetProperty_Binning_ret core = DEVICE_OK" and "GetProperty_Binning_val core \<noteq> 0"
  shows "SetROI core cam x y 0 0 =
     Inr (DEVICE_OK,
       cam\<lparr>multiROIXs := [], multiROIYs := [], multiROIWidths := [], multiROIHeights := [],
           binSize := GetProperty_Binning_val core,
           img := \<lparr>Width = word_of_int (long_div (cameraCCDXSize cam) (GetProperty_Binning_val core)),
                   Height = word_of_int (long_div (cameraCCDYSize cam) (GetProperty_Binning_val core)),
                   Depth = word_of_int (nComponents cam * long_div (bitDepth cam) 8)\<rparr>,
           roiX := 0, roiY := 0,
           hCam := (hCam cam)\<lparr>calls := calls (hCam cam) @
              [ROI_Set \<lparr>offset_x = 0, offset_y = 0,
                        size_width = word_of_int (cameraCCDXSize cam),
                        size_height = word_of_int (cameraCCDYSize cam)\<rparr>]\<rparr>,
           status := roi_set_status (hCam cam)\<rparr>)"
  unfolding SetROI_def ResizeImageBuffer_def push_roi_def peak_ROI_Set_def Resize3_def Let_def
  by (simp add: assms)

text \<open>
  Claim C2, as the code has it: on a 512 x 512 sensor with size increment 4 and minimum
  size 16 x 16, \<open>SetROI(10, 10, 18, 18)\<close> returns success, applies and sends the camera
  the rectangle with offset (10, 10) and size 16 x 16: the size is lowered to a multiple
  of 4, the offset of an in-bounds request is kept.
\<close>

theorem SetROI_scenario_10_10_18_18:
  "applied_rect (SetROI plain_core (sensor_512 willing_camera 16 4) 10 10 18 18)
     = Some (DEVICE_OK, 10, 10, 16, 16)
   \<and> pushed_rects (SetROI plain_core (sensor_512 willing_camera 16 4) 10 10 18 18)
     = [ROI_Set \<lparr>offset_x = 10, offset_y = 10, size_width = 16, size_height = 16\<rparr>]"
  by (simp add: applied_rect_def GetROI_def pushed_rects_def SetROI_def sensor_512_def CIDSPeak_new_def
      willing_camera_def peak_ROI_GetAccessStatus_def push_roi_def peak_ROI_Set_def
      Resize_def Let_def)

text \<open>
  Claim C2 as stated fails: the rectangle applied in that scenario is not
  (8, 8, 16, 16).
\<close>

theorem SetROI_scenario_not_8_8:
  "applied_rect (SetROI plain_core (sensor_512 willing_camera 16 4) 10 10 18 18)
     \<noteq> Some (DEVICE_OK, 8, 8, 16, 16)"
  by (simp add: applied_rect_def GetROI_def SetROI_def sensor_512_def CIDSPeak_new_def
      willing_camera_def peak_ROI_GetAccessStatus_def push_roi_def peak_ROI_Set_def
      Resize_def Let_def)

text \<open>
  Claim C6, with the condition it needs: when the reported ROI ranges are consistent
  (the minimum sizes are multiples of the non-zero increment), every valid non-reset
  request on writable geometry is accepted, and the applied rectangle has a width that
  is a multiple of the increment, at least the minimum width and, added to the
  offset, within the sensor width; the same holds for height and y. The applied size is
  the request raised to the minimum and lowered to a multiple of the increment, and
  the offset, not the size, is moved to stay in bounds.
\<close>

theorem SetROI_valid_request:
  assumes rw: "peak_ROI_GetAccessStatus (hCam cam) = PEAK_ACCESS_READWRITE"
    and cons: "roi_ranges_consistent cam"
    and val: "valid_roi_request cam x y xSize ySize"
  shows "\<exists>cam'. SetROI core cam x y xSize ySize = Inr (DEVICE_OK, cam')
           \<and> roi_postcondition cam cam'
           \<and> unat (Width (img cam')) = spec_size (unat (roiMinSizeX cam)) (unat (roiInc cam)) (unat xSize)
           \<and> unat (Height (img cam')) = spec_size (unat (roiMinSizeY cam)) (unat (roiInc cam)) (unat ySize)
           \<and> uint (roiX cam') = spec_offset (cameraCCDXSize cam) (uint x) (uint (Width (img cam')))
           \<and> uint (roiY cam') = spec_offset (cameraCCDYSize cam) (uint y) (uint (Height (img cam')))"
proof -
  define w1 where "w1 = max xSize (roiMinSizeX cam)"
  define h1 where "h1 = max ySize (roiMinSizeY cam)"
  define w where "w = w1 - w1 mod roiInc cam"
  define h where "h = h1 - h1 mod roiInc cam"
  define cx where "cx = cameraCCDXSize cam"
  define cy where "cy = cameraCCDYSize cam"
  define x1 where "x1 = (if x + w > word_of_int cx then word_of_int cx - w else x)"
  define y1 where "y1 = (if y + h > word_of_int cy then word_of_int cy - h else y)"
  have inc: "roiInc cam \<noteq> 0" and mx: "roiMinSizeX cam mod roiInc cam = 0"
    and my: "roiMinSizeY cam mod roiInc cam = 0"
    using cons by (simp_all add: roi_ranges_consistent_def)
  have nr: "\<not> (xSize = 0 \<and> ySize = 0)" and cxb: "cx < 2 ^ 32" and cyb: "cy < 2 ^ 32"
    and w1c: "uint w1 \<le> cx" and h1c: "uint h1 \<le> cy"
    and xo: "uint x + uint w1 < 2 ^ 32" and yo: "uint y + uint h1 < 2 ^ 32"
    using val by (simp_all add: valid_roi_request_def w1_def h1_def cx_def cy_def)
  have cx0: "0 \<le> cx" using w1c uint_ge_0 [of w1] by linarith
  have cy0: "0 \<le> cy" using h1c uint_ge_0 [of h1] by linarith
  have ww1: "uint w \<le> uint w1" unfolding w_def using snap_le [of w1 "roiInc cam"] by (simp add: word_le_def)
  have hh1: "uint h \<le> uint h1" unfolding h_def using snap_le [of h1 "roiInc cam"] by (simp add: word_le_def)
  have wc: "uint w \<le> cx" using ww1 w1c by linarith
  have hc: "uint h \<le> cy" using hh1 h1c by linarith
  have xw: "uint x + uint w < 2 ^ 32" using ww1 xo by linarith
  have yh: "uint y + uint h < 2 ^ 32" using hh1 yo by linarith
  have wmod: "w mod roiInc cam = 0" unfolding w_def by (rule snap_mod [OF inc])
  have hmod: "h mod roiInc cam = 0" unfolding h_def by (rule snap_mod [OF inc])
  have wmin: "roiMinSizeX cam \<le> w" unfolding w_def by (rule snap_ge [OF mx]) (simp add: w1_def)
  have hmin: "roiMinSizeY cam \<le> h" unfolding h_def by (rule snap_ge [OF my]) (simp add: h1_def)
  have xs: "uint x1 = spec_offset cx (uint x) (uint w)" and xb: "uint x1 + uint w \<le> cx"
    unfolding x1_def using shift_offset [OF cx0 cxb wc xw] by simp_all
  have ys: "uint y1 = spec_offset cy (uint y) (uint h)" and yb: "uint y1 + uint h \<le> cy"
    unfolding y1_def using shift_offset [OF cy0 cyb hc yh] by simp_all
  have wspec: "unat w = spec_size (unat (roiMinSizeX cam)) (unat (roiInc cam)) (unat xSize)"
    unfolding w_def w1_def by (rule snap_spec)
  have hspec: "unat h = spec_size (unat (roiMinSizeY cam)) (unat (roiInc cam)) (unat ySize)"
    unfolding h_def h1_def by (rule snap_spec)
  have run: "SetROI core cam x y xSize ySize = Inr (DEVICE_OK,
           cam\<lparr>multiROIXs := [], multiROIYs := [], multiROIWidths := [], multiROIHeights := [],
               img := (img cam)\<lparr>Width := w, Height := h\<rparr>, roiX := x1, roiY := y1,
               hCam := (hCam cam)\<lparr>calls := calls (hCam cam) @
                  [ROI_Set \<lparr>offset_x = x1, offset_y = y1, size_width = w, size_height = h\<rparr>]\<rparr>,
               status := roi_set_status (hCam cam)\<rparr>)"
    using SetROI_nonreset [OF rw nr inc, of core x y]
    by (simp add: Let_def w_def h_def w1_def h1_def x1_def y1_def cx_def cy_def)
  show ?thesis
    unfolding run roi_postcondition_def
    using wmod hmod wmin hmin xs xb ys yb wspec hspec
    by (simp add: cx_def cy_def)
qed

text \<open>
  The theorem of C6 on the second ROI scenario of the specification:
  \<open>SetROI(500, 500, 100, 100)\<close> keeps the size 100 and moves the offset to 412.
\<close>

theorem SetROI_valid_request_witness:
  "peak_ROI_GetAccessStatus (hCam (sensor_512 willing_camera 16 4)) = PEAK_ACCESS_READWRITE
   \<and> roi_ranges_consistent (sensor_512 willing_camera 16 4)
   \<and> valid_roi_request (sensor_512 willing_camera 16 4) 500 500 100 100
   \<and> (\<exists>cam'. SetROI plain_core (sensor_512 willing_camera 16 4) 500 500 100 100
                 = Inr (DEVICE_OK, cam')
          \<and> roi_postcondition (sensor_512 willing_camera 16 4) cam'
          \<and> unat (Width (img cam')) = 100 \<and> uint (roiX cam') = 412)"
proof -
  have rw: "peak_ROI_GetAccessStatus (hCam (sensor_512 willing_camera 16 4)) = PEAK_ACCESS_READWRITE"
    by (simp add: sensor_512_def CIDSPeak_new_def willing_camera_def peak_ROI_GetAccessStatus_def)
  have cons: "roi_ranges_consistent (sensor_512 willing_camera 16 4)"
    by (simp add: roi_ranges_consistent_def sensor_512_def CIDSPeak_new_def)
  have val: "valid_roi_request (sensor_512 willing_camera 16 4) 500 500 100 100"
    by (simp add: valid_roi_request_def sensor_512_def CIDSPeak_new_def)
  have sz: "spec_size (unat (roiMinSizeX (sensor_512 willing_camera 16 4)))
              (unat (roiInc (sensor_512 willing_camera 16 4))) (unat (100::uint)) = 100"
    by (simp add: spec_size_def sensor_512_def CIDSPeak_new_def)
  have off: "\<And>w::uint. unat w = 100 \<Longrightarrow> spec_offset (cameraCCDXSize (sensor_512 willing_camera 16 4)) (uint (500::uint)) (uint w) = 412"
    by (simp add: spec_offset_def sensor_512_def CIDSPeak_new_def uint_nat)
  show ?thesis
    using SetROI_valid_request [OF rw cons val, of plain_core] rw cons val sz off
    by auto
qed

text \<open>
  Claim C6 as stated fails when the minimum size is not a multiple of the increment:
  with minimum 18 and increment 4 the valid request \<open>(10, 10, 18, 18)\<close> is applied
  with width 16, below the minimum width.
\<close>

theorem SetROI_min_not_multiple:
  "peak_ROI_GetAccessStatus (hCam (sensor_512 willing_camera 18 4)) = PEAK_ACCESS_READWRITE
   \<and> valid_roi_request (sensor_512 willing_camera 18 4) 10 10 18 18
   \<and> applied_rect (SetROI plain_core (sensor_512 willing_camera 18 4) 10 10 18 18)
       = Some (DEVICE_OK, 10, 10, 16, 16)
   \<and> \<not> roiMinSizeX (sensor_512 willing_camera 18 4) \<le> 16"
  by (simp add: valid_roi_request_def applied_rect_def GetROI_def SetROI_def sensor_512_def CIDSPeak_new_def
      willing_camera_def peak_ROI_GetAccessStatus_def push_roi_def peak_ROI_Set_def
      Resize_def Let_def)

text \<open>
  Claim C10: on writable geometry, whatever the camera answers to the pushed rectangle,
  \<open>SetROI\<close> returns \<open>DEVICE_OK\<close>; the answer is only stored in \<open>status\<close>. The
  buffer resize and the stored offsets take effect: after a reset request the buffer
  has the size of the sensor divided by the binning and the offset is (0, 0); after any
  other request the buffer has the requested size, raised to the minimum and lowered
  to a multiple of the increment, and the offset is the requested one, moved back
  where the rectangle would pass the sensor edge. The rectangle is pushed once, and
  the applied and the pushed rectangle are those of a run in which the camera accepts.
\<close>

theorem SetROI_succeeds_whatever_camera_answers:
  assumes "roi_request_runs core cam xSize ySize"
  shows "\<exists>cam'. SetROI core (with_roi_answer st cam) x y xSize ySize = Inr (DEVICE_OK, cam')
           \<and> status cam' = st
           \<and> (if xSize = 0 \<and> ySize = 0
               then Width (img cam')
                      = word_of_int (long_div (cameraCCDXSize cam) (GetProperty_Binning_val core))
                  \<and> Height (img cam')
                      = word_of_int (long_div (cameraCCDYSize cam) (GetProperty_Binning_val core))
                  \<and> roiX cam' = 0 \<and> roiY cam' = 0
                  \<and> calls (hCam cam') = calls (hCam cam) @
                       [ROI_Set \<lparr>offset_x = 0, offset_y = 0,
                                 size_width = word_of_int (cameraCCDXSize cam),
                                 size_height = word_of_int (cameraCCDYSize cam)\<rparr>]
               else Width (img cam')
                      = max xSize (roiMinSizeX cam) - max xSize (roiMinSizeX cam) mod roiInc cam
                  \<and> Height (img cam')
                      = max ySize (roiMinSizeY cam) - max ySize (roiMinSizeY cam) mod roiInc cam
                  \<and> unat (Width (img cam'))
                      = spec_size (unat (roiMinSizeX cam)) (unat (roiInc cam)) (unat xSize)
                  \<and> unat (Height (img cam'))
                      = spec_size (unat (roiMinSizeY cam)) (unat (roiInc cam)) (unat ySize)
                  \<and> roiX cam'
                      = (if x + Width (img cam') > word_of_int (cameraCCDXSize cam)
                         then word_of_int (cameraCCDXSize cam) - Width (img cam') else x)
                  \<and> roiY cam'
                      = (if y + Height (img cam') > word_of_int (cameraCCDYSize cam)
                         then word_of_int (cameraCCDYSize cam) - Height (img cam') else y)
                  \<and> calls (hCam cam') = calls (hCam cam) @
                       [ROI_Set \<lparr>offset_x = roiX cam', offset_y = roiY cam',
                                 size_width = Width (img cam'),
                                 size_height = Height (img cam')\<rparr>])
           \<and> applied_rect (SetROI core (with_roi_answer st cam) x y xSize ySize)
               = applied_rect (SetROI core (with_roi_answer PEAK_STATUS_SUCCESS cam) x y xSize ySize)
           \<and> pushed_rects (SetROI core (with_roi_answer st cam) x y xSize ySize)
               = pushed_rects (SetROI core (with_roi_answer PEAK_STATUS_SUCCESS cam) x y xSize ySize)"
proof (cases "xSize = 0 \<and> ySize = 0")
  case True
  then have x0: "xSize = 0" and y0: "ySize = 0" by simp_all
  have pre: "\<And>s. peak_ROI_GetAccessStatus (hCam (with_roi_answer s cam)) = PEAK_ACCESS_READWRITE"
    and g: "GetProperty_Binning_ret core = DEVICE_OK" "GetProperty_Binning_val core \<noteq> 0"
    using assms True by (simp_all add: roi_request_runs_def with_roi_answer_def peak_ROI_GetAccessStatus_def)
  show ?thesis
    unfolding x0 y0 SetROI_reset [OF pre g]
    by (simp add: with_roi_answer_def applied_rect_def GetROI_def pushed_rects_def)
next
  case False
  have pre: "\<And>s. peak_ROI_GetAccessStatus (hCam (with_roi_answer s cam)) = PEAK_ACCESS_READWRITE"
    and inc: "\<And>s. roiInc (with_roi_answer s cam) \<noteq> 0"
    using assms False by (simp_all add: roi_request_runs_def with_roi_answer_def peak_ROI_GetAccessStatus_def)
  have nr: "(xSize = 0 \<and> ySize = 0) = False" using False by simp
  show ?thesis
    unfolding SetROI_nonreset [OF pre False inc] nr
    by (simp add: with_roi_answer_def applied_rect_def GetROI_def pushed_rects_def Let_def
        snap_spec)
qed

text \<open>The theorem of C10 for a camera that rejects the rectangle of the first ROI
  scenario: success is returned and the rectangle (10, 10, 16, 16) is applied.\<close>

theorem SetROI_succeeds_whatever_camera_answers_witness:
  "roi_request_runs plain_core (sensor_512 willing_camera 16 4) 18 18
   \<and> (\<exists>cam'. SetROI plain_core (with_roi_answer PEAK_STATUS_ERROR (sensor_512 willing_camera 16 4))
                 10 10 18 18 = Inr (DEVICE_OK, cam')
          \<and> status cam' = PEAK_STATUS_ERROR
          \<and> GetROI cam' = (DEVICE_OK, 10, 10, 16, 16)
          \<and> calls (hCam cam')
              = [ROI_Set \<lparr>offset_x = 10, offset_y = 10, size_width = 16, size_height = 16\<rparr>])"
proof -
  define c where "c = sensor_512 willing_camera 16 4"
  have r: "roi_request_runs plain_core c 18 18"
    by (simp add: c_def roi_request_runs_def sensor_512_def CIDSPeak_new_def willing_camera_def
        peak_ROI_GetAccessStatus_def)
  have v: "roiMinSizeX c = 16" "roiMinSizeY c = 16" "roiInc c = 4" "cameraCCDXSize c = 512"
    "cameraCCDYSize c = 512" "calls (hCam c) = []"
    by (simp_all add: c_def sensor_512_def CIDSPeak_new_def willing_camera_def)
  obtain cam' where run: "SetROI plain_core (with_roi_answer PEAK_STATUS_ERROR c) 10 10 18 18
        = Inr (DEVICE_OK, cam')"
    and st: "status cam' = PEAK_STATUS_ERROR"
    and w: "Width (img cam') = 16" and h: "Height (img cam') = 16"
    and x: "roiX cam' = (if 10 + Width (img cam') > (512::uint) then 512 - Width (img cam') else 10)"
    and y: "roiY cam' = (if 10 + Height (img cam') > (512::uint) then 512 - Height (img cam') else 10)"
    and p: "calls (hCam cam') = [ROI_Set \<lparr>offset_x = roiX cam', offset_y = roiY cam',
                                 size_width = Width (img cam'),
                                 size_height = Height (img cam')\<rparr>]"
    using SetROI_succeeds_whatever_camera_answers [OF r, of PEAK_STATUS_ERROR 10 10]
    by (auto simp: v)
  have x': "roiX cam' = 10" and y': "roiY cam' = 10"
    using x y by (simp_all add: w h)
  show ?thesis
    unfolding c_def [symmetric]
    using r run st p by (auto simp: GetROI_def w h x' y')
qed

subsection \<open>SetMultiROI and GetMultiROI\<close>

lemma fold_upt_Suc: "fold f [0 ..< Suc k] s = f k (fold f [0 ..< k] s)"
  by simp

lemma Min_insert2: "finite S \<Longrightarrow> Min (insert a (insert b S)) = min b (Min (insert a S))"
  by (subst insert_commute) simp

lemma Max_insert2: "finite S \<Longrightarrow> Max (insert a (insert b S)) = max b (Max (insert a S))"
  by (subst insert_commute) simp

lemma SetMultiROI_body_min:
  "unat (minX (SetMultiROI_body xs ys widths heights i t)) = min (unat (xs ! i)) (unat (minX t))"
  "unat (minY (SetMultiROI_body xs ys widths heights i t)) = min (unat (ys ! i)) (unat (minY t))"
  by (simp_all add: SetMultiROI_body_def word_less_nat_alt min_def)

lemma SetMultiROI_body_max:
  "unat (xs ! i) + unat (widths ! i) < 2 ^ 32 \<Longrightarrow>
   unat (maxX (SetMultiROI_body xs ys widths heights i t))
     = max (unat (xs ! i) + unat (widths ! i)) (unat (maxX t))"
  "unat (ys ! i) + unat (heights ! i) < 2 ^ 32 \<Longrightarrow>
   unat (maxY (SetMultiROI_body xs ys widths heights i t))
     = max (unat (ys ! i) + unat (heights ! i)) (unat (maxY t))"
proof -
  assume "unat (xs ! i) + unat (widths ! i) < 2 ^ 32"
  then have "unat (xs ! i + widths ! i) = unat (xs ! i) + unat (widths ! i)"
    by (simp add: unat_add_lem [THEN iffD1])
  then show "unat (maxX (SetMultiROI_body xs ys widths heights i t))
     = max (unat (xs ! i) + unat (widths ! i)) (unat (maxX t))"
    by (simp add: SetMultiROI_body_def word_less_nat_alt max_def)
next
  assume "unat (ys ! i) + unat (heights ! i) < 2 ^ 32"
  then have "unat (ys ! i + heights ! i) = unat (ys ! i) + unat (heights ! i)"
    by (simp add: unat_add_lem [THEN iffD1])
  then show "unat (maxY (SetMultiROI_body xs ys widths heights i t))
     = max (unat (ys ! i) + unat (heights ! i)) (unat (maxY t))"
    by (simp add: SetMultiROI_body_def word_less_nat_alt max_def)
qed

lemma SetMultiROI_loop_cam:
  assumes "k \<le> length xs" "k \<le> length ys" "k \<le> length widths" "k \<le> length heights"
  shows "lcam (fold (SetMultiROI_body xs ys widths heights) [0 ..< k] s) =
     (lcam s)\<lparr>multiROIXs := multiROIXs (lcam s) @ take k xs,
              multiROIYs := multiROIYs (lcam s) @ take k ys,
              multiROIWidths := multiROIWidths (lcam s) @ take k widths,
              multiROIHeights := multiROIHeights (lcam s) @ take k heights\<rparr>"
  using assms
proof (induction k)
  case 0
  then show ?case by simp
next
  case (Suc k)
  then have ih: "lcam (fold (SetMultiROI_body xs ys widths heights) [0 ..< k] s) =
     (lcam s)\<lparr>multiROIXs := multiROIXs (lcam s) @ take k xs,
              multiROIYs := multiROIYs (lcam s) @ take k ys,
              multiROIWidths := multiROIWidths (lcam s) @ take k widths,
              multiROIHeights := multiROIHeights (lcam s) @ take k heights\<rparr>"
    by simp
  have b: "\<And>t. lcam (SetMultiROI_body xs ys widths heights k t) =
      (lcam t)\<lparr>multiROIXs := multiROIXs (lcam t) @ [xs ! k],
               multiROIYs := multiROIYs (lcam t) @ [ys ! k],
               multiROIWidths := multiROIWidths (lcam t) @ [widths ! k],
               multiROIHeights := multiROIHeights (lcam t) @ [heights ! k]\<rparr>"
    by (simp add: SetMultiROI_body_def)
  show ?case
    unfolding fold_upt_Suc b ih using Suc.prems
    by (simp add: take_Suc_conv_app_nth)
qed

lemma SetMultiROI_loop_minX:
  "unat (minX (fold (SetMultiROI_body xs ys widths heights) [0 ..< k] s)) =
     Min (insert (unat (minX s)) ((\<lambda>i. unat (xs ! i)) ` {..<k}))"
proof (induction k)
  case 0
  show ?case by simp
next
  case (Suc k)
  show ?case
    unfolding fold_upt_Suc SetMultiROI_body_min Suc.IH lessThan_Suc image_insert
    by (rule Min_insert2 [symmetric]) simp
qed

lemma SetMultiROI_loop_minY:
  "unat (minY (fold (SetMultiROI_body xs ys widths heights) [0 ..< k] s)) =
     Min (insert (unat (minY s)) ((\<lambda>i. unat (ys ! i)) ` {..<k}))"
proof (induction k)
  case 0
  show ?case by simp
next
  case (Suc k)
  show ?case
    unfolding fold_upt_Suc SetMultiROI_body_min Suc.IH lessThan_Suc image_insert
    by (rule Min_insert2 [symmetric]) simp
qed

lemma SetMultiROI_loop_maxX:
  assumes "\<forall>i<k. unat (xs ! i) + unat (widths ! i) < 2 ^ 32"
  shows "unat (maxX (fold (SetMultiROI_body xs ys widths heights) [0 ..< k] s)) =
     Max (insert (unat (maxX s)) ((\<lambda>i. unat (xs ! i) + unat (widths ! i)) ` {..<k}))"
  using assms
proof (induction k)
  case 0
  show ?case by simp
next
  case (Suc k)
  have ih: "unat (maxX (fold (SetMultiROI_body xs ys widths heights) [0 ..< k] s)) =
     Max (insert (unat (maxX s)) ((\<lambda>i. unat (xs ! i) + unat (widths ! i)) ` {..<k}))"
    using Suc by simp
  have e: "unat (xs ! k) + unat (widths ! k) < 2 ^ 32"
    using Suc.prems by simp
  show ?case
    unfolding fold_upt_Suc SetMultiROI_body_max(1) [OF e] ih lessThan_Suc image_insert
    by (rule Max_insert2 [symmetric]) simp
qed

lemma SetMultiROI_loop_maxY:
  assumes "\<forall>i<k. unat (ys ! i) + unat (heights ! i) < 2 ^ 32"
  shows "unat (maxY (fold (SetMultiROI_body xs ys widths heights) [0 ..< k] s)) =
     Max (insert (unat (maxY s)) ((\<lambda>i. unat (ys ! i) + unat (heights ! i)) ` {..<k}))"
  using assms
proof (induction k)
  case 0
  show ?case by simp
next
  case (Suc k)
  have ih: "unat (maxY (fold (SetMultiROI_body xs ys widths heights) [0 ..< k] s)) =
     Max (insert (unat (maxY s)) ((\<lambda>i. unat (ys ! i) + unat (heights ! i)) ` {..<k}))"
    using Suc by simp
  have e: "unat (ys ! k) + unat (heights ! k) < 2 ^ 32"
    using Suc.prems by simp
  show ?case
    unfolding fold_upt_Suc SetMultiROI_body_max(2) [OF e] ih lessThan_Suc image_insert
    by (rule Max_insert2 [symmetric]) simp
qed

lemma GetMultiROI_loop:
  assumes "k \<le> length a" "k \<le> length b" "k \<le> length c" "k \<le> length d"
    and "k \<le> length (multiROIXs cam)" "k \<le> length (multiROIYs cam)"
    and "k \<le> length (multiROIWidths cam)" "k \<le> length (multiROIHeights cam)"
  shows "fold (GetMultiROI_body cam) [0 ..< k] (a, b, c, d) =
    (take k (multiROIXs cam) @ drop k a, take k (multiROIYs cam) @ drop k b,
     take k (multiROIWidths cam) @ drop k c, take k (multiROIHeights cam) @ drop k d)"
  using assms
proof (induction k)
  case 0
  show ?case by simp
next
  case (Suc k)
  have upd: "\<And>(v::uint list) u. k < length v \<Longrightarrow> k < length u \<Longrightarrow>
      (take k v @ drop k u)[k := v ! k] = take (Suc k) v @ drop (Suc k) u"
    by (simp add: list_update_append take_Suc_conv_app_nth upd_conv_take_nth_drop)
  have ih: "fold (GetMultiROI_body cam) [0 ..< k] (a, b, c, d) =
    (take k (multiROIXs cam) @ drop k a, take k (multiROIYs cam) @ drop k b,
     take k (multiROIWidths cam) @ drop k c, take k (multiROIHeights cam) @ drop k d)"
    using Suc by simp
  show ?case
    unfolding fold_upt_Suc ih using Suc.prems
    by (simp add: GetMultiROI_body_def upd)
qed

lemma image_nth_map: "(\<lambda>i. f (xs ! i)) ` {..<length xs} = set (map f xs)"
  by (force simp: in_set_conv_nth image_iff)

lemma image_nth_map2:
  assumes "length ws = length xs"
  shows "(\<lambda>i. f (xs ! i) (ws ! i)) ` {..<length xs} = set (map2 f xs ws)"
  using assms by (auto simp: set_zip image_iff)

lemma least_edge_loop:
  assumes "xs \<noteq> []"
  shows "Min (insert (unat UINT_MAX) ((\<lambda>i. unat (xs ! i)) ` {..<length xs})) = least_edge xs"
proof -
  have S: "(\<lambda>i. unat (xs ! i)) ` {..<length xs} = set (map unat xs)"
    by (rule image_nth_map)
  have ne: "set (map unat xs) \<noteq> {}" using assms by simp
  have "Min (set (map unat xs)) \<in> set (map unat xs)"
    using ne by (intro Min_in) simp_all
  then obtain x where "Min (set (map unat xs)) = unat (x::uint)" by auto
  moreover have "unat x \<le> unat UINT_MAX"
    by (simp add: UINT_MAX_def word_le_nat_alt [symmetric])
  ultimately have "Min (set (map unat xs)) \<le> unat UINT_MAX" by simp
  then have "min (unat UINT_MAX) (Min (set (map unat xs))) = Min (set (map unat xs))"
    by (rule min_absorb2)
  moreover have "Min (insert (unat UINT_MAX) (set (map unat xs)))
      = min (unat UINT_MAX) (Min (set (map unat xs)))"
    using ne by (intro Min_insert) simp_all
  ultimately show ?thesis
    unfolding S least_edge_def by simp
qed

lemma greatest_edge_loop:
  assumes "xs \<noteq> []" "length ws = length xs"
  shows "Max (insert (unat (0::uint)) ((\<lambda>i. unat (xs ! i) + unat (ws ! i)) ` {..<length xs}))
           = greatest_edge xs ws"
proof -
  have S: "(\<lambda>i. unat (xs ! i) + unat (ws ! i)) ` {..<length xs}
             = set (map2 (\<lambda>x w. unat x + unat w) xs ws)"
    by (rule image_nth_map2 [OF assms(2)])
  have ne: "set (map2 (\<lambda>x w. unat x + unat w) xs ws) \<noteq> {}" using assms by (cases xs; cases ws) simp_all
  show ?thesis
    unfolding S greatest_edge_def using ne by simp
qed

lemma least_le_greatest:
  assumes "xs \<noteq> []" "length ws = length xs"
  shows "least_edge xs \<le> greatest_edge xs ws"
proof -
  obtain x xs' w ws' where xs: "xs = x # xs'" and ws: "ws = w # ws'"
    using assms by (cases xs; cases ws) simp_all
  have "least_edge xs \<le> unat x"
    unfolding least_edge_def xs by simp
  moreover have "unat x + unat w \<le> greatest_edge xs ws"
    unfolding greatest_edge_def xs ws by simp
  ultimately show ?thesis by linarith
qed

text \<open>
  Claim C8: for every non-empty list of rectangles (whose edges are representable in 32
  bits), \<open>SetMultiROI\<close> followed by \<open>GetMultiROI\<close>, with caller arrays at least as long
  as the list, returns exactly the submitted rectangles in order and their count; and
  after \<open>SetMultiROI\<close> the width and height of the frame buffer are those of the least
  box covering all rectangles, the stored offset being its top-left corner.
\<close>

theorem SetMultiROI_then_GetMultiROI:
  assumes ne: "xs \<noteq> []" and ok: "rects_ok xs ys widths heights"
    and cap: "length xs \<le> unat len"
    and arrays: "unat len \<le> length cxs" "unat len \<le> length cys"
                "unat len \<le> length cws" "unat len \<le> length chs"
  shows "\<exists>cam'. SetMultiROI cam xs ys widths heights (word_of_nat (length xs)) = Inr (DEVICE_OK, cam')
           \<and> GetMultiROI cam' cxs cys cws chs len
                = Inr (DEVICE_OK,
                       (xs @ drop (length xs) cxs, ys @ drop (length xs) cys,
                        widths @ drop (length xs) cws, heights @ drop (length xs) chs),
                       word_of_nat (length xs))
           \<and> unat (Width (img cam')) = greatest_edge xs widths - least_edge xs
           \<and> unat (Height (img cam')) = greatest_edge ys heights - least_edge ys
           \<and> unat (roiX cam') = least_edge xs
           \<and> unat (roiY cam') = least_edge ys"
proof -
  define n where "n = length xs"
  define s where "s = fold (SetMultiROI_body xs ys widths heights) [0 ..< n]
      \<lparr>lcam = cam\<lparr>multiROIXs := [], multiROIYs := [], multiROIWidths := [], multiROIHeights := []\<rparr>,
       minX = UINT_MAX, minY = UINT_MAX, maxX = 0, maxY = 0\<rparr>"
  have nb: "n < 2 ^ 32" and ly: "length ys = n" and lw: "length widths = n" and lh: "length heights = n"
    and ovx: "\<forall>i<n. unat (xs ! i) + unat (widths ! i) < 2 ^ 32"
    and ovy: "\<forall>i<n. unat (ys ! i) + unat (heights ! i) < 2 ^ 32"
    using ok by (auto simp: rects_ok_def n_def list_all2_conv_all_nth)
  have yne: "ys \<noteq> []" using ne ly n_def by auto
  have un: "unat (word_of_nat n :: uint) = n"
    using nb by (simp add: unat_of_nat take_bit_nat_eq_self)
  have cam_s: "lcam s = cam\<lparr>multiROIXs := xs, multiROIYs := ys, multiROIWidths := widths, multiROIHeights := heights\<rparr>"
    unfolding s_def using ly lw lh
    by (subst SetMultiROI_loop_cam) (simp_all add: n_def)
  have minx: "unat (minX s) = least_edge xs"
    unfolding s_def SetMultiROI_loop_minX using least_edge_loop [OF ne] by (simp add: n_def)
  have miny: "unat (minY s) = least_edge ys"
    unfolding s_def SetMultiROI_loop_minY using least_edge_loop [OF yne] by (simp add: ly)
  have maxx: "unat (maxX s) = greatest_edge xs widths"
    unfolding s_def SetMultiROI_loop_maxX [OF ovx]
    using greatest_edge_loop [OF ne, of widths] lw by (simp add: n_def)
  have maxy: "unat (maxY s) = greatest_edge ys heights"
    unfolding s_def SetMultiROI_loop_maxY [OF ovy]
    using greatest_edge_loop [OF yne, of heights] lh by (simp add: ly)
  have lex: "minX s \<le> maxX s"
    using least_le_greatest [OF ne, of widths] lw n_def by (simp add: word_le_nat_alt minx maxx)
  have ley: "minY s \<le> maxY s"
    using least_le_greatest [OF yne, of heights] lh ly by (simp add: word_le_nat_alt miny maxy)
  have wd: "unat (maxX s - minX s) = greatest_edge xs widths - least_edge xs"
    using lex by (simp add: unat_sub minx maxx)
  have ht: "unat (maxY s - minY s) = greatest_edge ys heights - least_edge ys"
    using ley by (simp add: unat_sub miny maxy)
  define cam' where "cam' = (lcam s)\<lparr>img := Resize (img (lcam s)) (maxX s - minX s) (maxY s - minY s),
                      roiX := minX s, roiY := minY s\<rparr>"
  have set: "SetMultiROI cam xs ys widths heights (word_of_nat (length xs)) = Inr (DEVICE_OK, cam')"
    unfolding SetMultiROI_def cam'_def s_def n_def [symmetric] un Let_def
    using ly lw lh by (simp add: n_def)
  have lists: "multiROIXs cam' = xs" "multiROIYs cam' = ys" "multiROIWidths cam' = widths"
    "multiROIHeights cam' = heights"
    by (simp_all add: cam'_def cam_s)
  have le_len: "\<not> (word_of_nat n :: uint) > len"
    using cap un by (simp add: word_less_nat_alt n_def)
  have loop: "fold (GetMultiROI_body cam') [0 ..< n] (cxs, cys, cws, chs) =
      (xs @ drop n cxs, ys @ drop n cys, widths @ drop n cws, heights @ drop n chs)"
    using cap arrays ly lw lh
    by (subst GetMultiROI_loop) (simp_all add: lists n_def)
  have get: "GetMultiROI cam' cxs cys cws chs len
                = Inr (DEVICE_OK,
                       (xs @ drop n cxs, ys @ drop n cys, widths @ drop n cws, heights @ drop n chs),
                       word_of_nat n)"
    unfolding GetMultiROI_def Let_def lists n_def [symmetric] un loop
    using le_len cap arrays ly lw lh by (simp add: n_def)
  show ?thesis
    using set get wd ht minx miny
    by (simp add: cam'_def Resize_def n_def)
qed

text \<open>The theorem of C8 on two rectangles, read back into arrays of three entries.\<close>

theorem SetMultiROI_then_GetMultiROI_witness:
  "[10, 100 :: uint] \<noteq> [] \<and> rects_ok [10, 100] [20, 50] [30, 40] [5, 100]
   \<and> length [10, 100 :: uint] \<le> unat (3 :: uint)
   \<and> unat (3 :: uint) \<le> length [0, 0, 0 :: uint]
   \<and> (\<exists>cam'. SetMultiROI (sensor_512 willing_camera 16 4) [10, 100] [20, 50] [30, 40] [5, 100] 2
                  = Inr (DEVICE_OK, cam')
          \<and> GetMultiROI cam' [0, 0, 0] [0, 0, 0] [0, 0, 0] [0, 0, 0] 3
                = Inr (DEVICE_OK, ([10, 100, 0], [20, 50, 0], [30, 40, 0], [5, 100, 0]), 2)
          \<and> unat (Width (img cam')) = 130 \<and> unat (Height (img cam')) = 130
          \<and> unat (roiX cam') = 10 \<and> unat (roiY cam') = 20)"
proof -
  have ne: "[10, 100 :: uint] \<noteq> []" by simp
  have ok: "rects_ok [10, 100] [20, 50] [30, 40] [5, 100]"
    by (simp add: rects_ok_def)
  have cap: "length [10, 100 :: uint] \<le> unat (3 :: uint)" by simp
  have arr: "unat (3 :: uint) \<le> length [0, 0, 0 :: uint]" by simp
  have edges: "least_edge [10, 100] = 10" "least_edge [20, 50] = 20"
    "greatest_edge [10, 100] [30, 40] = 140" "greatest_edge [20, 50] [5, 100] = 150"
    by (simp_all add: least_edge_def greatest_edge_def)
  show ?thesis
    using SetMultiROI_then_GetMultiROI [OF ne ok cap arr arr arr arr, of "sensor_512 willing_camera 16 4"]
      ne ok cap arr
    by (simp add: edges)
qed

subsection \<open>Evaluating double arithmetic\<close>

lemmas double_defs =
  fl_def round_magnitude_def round_half_even_def binary_exponent_def pow2_def bit_length.simps
  dadd_def dmul_def ddiv_def dless_def dle_def dgreater_def dge_def dceil_def
  is_negative_def is_zero_def is_infinite_def finite_value_def signed_zero_def
  signed_infinity_def

lemmas camera_defs =
  CIDSPeak_new_def MySequenceThread_new_def willing_camera_def plain_core_def
  peak_FrameRate_Set_def peak_ExposureTime_GetAccessStatus_def peak_ExposureTime_Set_def
  peak_ExposureTime_Get_def with_exposure_range_def Let_def

lemma nearest_double_30_3: "fl (303 / 10) = Finite (8528691794332877 / 281474976710656)"
  by (simp add: double_defs)

subsection \<open>framerateSet\<close>

text \<open>
  Claim C5 on the code: the maximal frame rate is 30.3 (the double nearest to it), the
  exposure 10 ms and the requested interval 20 ms. \<open>framerateSet\<close> replaces the interval
  by \<open>1000 / framerateMax_\<close> and caches and sends the camera \<open>1000 /\<close> that interval,
  which rounds to 30.300000000000004: the rate is above the maximal frame rate.
\<close>

theorem framerateSet_exceeds_framerateMax:
  "framerateMax ((CIDSPeak_new willing_camera)\<lparr>framerateMax := fl (303 / 10)\<rparr>)
     = Finite (8528691794332877 / 281474976710656)
   \<and> code_and_rate
        (framerateSet ((CIDSPeak_new willing_camera)\<lparr>framerateMax := fl (303 / 10)\<rparr>) (Finite 20))
      = (DEVICE_OK, Finite (4264345897166439 / 140737488355328))
   \<and> calls (hCam (snd
        (framerateSet ((CIDSPeak_new willing_camera)\<lparr>framerateMax := fl (303 / 10)\<rparr>) (Finite 20))))
      = [FrameRate_Set (Finite (4264345897166439 / 140737488355328))]
   \<and> dgreater (Finite (4264345897166439 / 140737488355328))
        (Finite (8528691794332877 / 281474976710656))"
  by (simp add: code_and_rate_def framerateSet_def camera_defs double_defs)

text \<open>The interval that the applied rate implies can be shorter than exposure plus
  guard: with exposure 1.4 ms the rate is \<open>1000 / 1.9\<close>, and \<open>1000 /\<close> that rate rounds
  to 1.8999999999999997, below the 1.9 of exposure plus guard.\<close>

lemma framerateSet_interval_below_guard:
  "code_and_rate
     (framerateSet ((CIDSPeak_new willing_camera)
                      \<lparr>exposureCur := fl (14 / 10), framerateMax := Finite 1000\<rparr>) (Finite 1))
     = (DEVICE_OK, Finite (4629522643267369 / 8796093022208))
   \<and> dadd (fl (14 / 10)) (Finite 0.5) = Finite (4278419646001971 / 2251799813685248)
   \<and> ddiv (Finite 1000) (Finite (4629522643267369 / 8796093022208))
       = Finite (8556839292003941 / 4503599627370496)
   \<and> dless (Finite (8556839292003941 / 4503599627370496))
        (Finite (4278419646001971 / 2251799813685248))"
  by (simp add: code_and_rate_def framerateSet_def camera_defs double_defs)

subsection \<open>Failed configuration calls\<close>

text \<open>
  Claim C4 on the code: the camera refuses the frame rate written to it. \<open>framerateSet\<close>
  returns \<open>ERR_NO_WRITE_ACCESS\<close>, and the cached current frame rate, 10 before the
  call, is 20 after it.
\<close>

theorem framerateSet_failed_write_changes_rate:
  "framerateCur (CIDSPeak_new (willing_camera\<lparr>framerate_set_status := PEAK_STATUS_ERROR\<rparr>))
     = Finite 10
   \<and> code_and_rate (framerateSet
        (CIDSPeak_new (willing_camera\<lparr>framerate_set_status := PEAK_STATUS_ERROR\<rparr>)) (Finite 50))
      = (ERR_NO_WRITE_ACCESS, Finite 20)"
  by (simp add: code_and_rate_def framerateSet_def camera_defs double_defs)

text \<open>A reset request of \<open>SetROI\<close> that fails on reading the binning property returns
  the error with the multi-ROI set already cleared.\<close>

lemma SetROI_failed_reset_clears_multiROI:
  assumes "peak_ROI_GetAccessStatus (hCam cam) = PEAK_ACCESS_READWRITE"
    and "GetProperty_Binning_ret core \<noteq> DEVICE_OK"
  shows "SetROI core cam x y 0 0 =
           Inr (GetProperty_Binning_ret core,
                cam\<lparr>multiROIXs := [], multiROIYs := [],
                    multiROIWidths := [], multiROIHeights := []\<rparr>)"
  using assms by (simp add: SetROI_def ResizeImageBuffer_def Let_def)

subsection \<open>SetExposure\<close>


text \<open>
  Claim C7 on the code: with increment 1 ms and range 0 to 10.5 ms,
  \<open>SetExposure(10.25)\<close> takes neither clamp branch, since the request itself is inside
  the range, and writes the rounded value unclamped: 11000 microseconds, above the
  maximum of 10500.
\<close>

theorem SetExposure_overshoots_off_grid:
  "peak_ExposureTime_GetAccessStatus
      (hCam (with_exposure_range (Finite 0) (Finite (21 / 2)) (Finite 1) (CIDSPeak_new willing_camera)))
     = PEAK_ACCESS_READWRITE
   \<and> camera_after
        (SetExposure (with_exposure_range (Finite 0) (Finite (21 / 2)) (Finite 1)
                        (CIDSPeak_new willing_camera)) (Finite (41 / 4)))
      = ([ExposureTime_Set (Finite 11000)], Finite 11000)
   \<and> dmul (exposureMax (with_exposure_range (Finite 0) (Finite (21 / 2)) (Finite 1)
                           (CIDSPeak_new willing_camera))) (Finite 1000)
      = Finite 10500
   \<and> dgreater (Finite 11000) (Finite 10500)"
  by (simp add: camera_after_def SetExposure_def camera_defs double_defs)

text \<open>A request on the grid of the increment can be rounded up a whole step: with range
  and increment 0.02 ms (20 microseconds divided by 1000), the quotient of 0.14 and
  the increment rounds to 7.000000000000001, and 160 microseconds are written. The
  scenario of the specification holds: \<open>SetExposure(0.03)\<close> with increment and minimum
  0.1 ms writes 100 microseconds, the minimum.\<close>

lemma SetExposure_overshoots_on_grid:
  "camera_after
     (SetExposure (with_exposure_range (ddiv (Finite 20) (Finite 1000)) (Finite 1000)
                     (ddiv (Finite 20) (Finite 1000)) (CIDSPeak_new willing_camera))
        (ddiv (Finite 140) (Finite 1000)))
   = ([ExposureTime_Set (Finite 160)], Finite 160)"
  by (simp add: camera_after_def SetExposure_def camera_defs double_defs)

lemma SetExposure_below_minimum:
  "camera_after
     (SetExposure (with_exposure_range (ddiv (Finite 100) (Finite 1000)) (Finite 1000)
                     (ddiv (Finite 100) (Finite 1000)) (CIDSPeak_new willing_camera))
        (fl (3 / 100)))
   = ([ExposureTime_Set (Finite 100)], Finite 100)"
  by (simp add: camera_after_def SetExposure_def camera_defs double_defs)

subsection \<open>Starting an acquisition\<close>

lemmas run_defs =
  StartSequenceAcquisition_def IsCapturing_def IsStopped_def Stop_def Start_def framerateSet_def

lemma running_100_eq:
  "running_100 =
     (CIDSPeak_new willing_camera)
       \<lparr>hCam := willing_camera\<lparr>calls := [FrameRate_Set (Finite 10)]\<rparr>,
        framerateCur := Finite 10, core_calls := [PrepareForAcq],
        thd := \<lparr>intervalMs = Finite 100, numImages = 100, thd_imageCounter = 0, stop = False,
                suspend = False, startTime = 0, actualDuration = 0, lastFrameTime = 0,
                active = True\<rparr>\<rparr>"
  by (simp add: running_100_def run_defs camera_defs double_defs)

text \<open>
  Claim C9, for the state the code rejects in: in every state in which the acquisition
  is running (the stop flag is clear), \<open>StartSequenceAcquisition\<close> fails with
  \<open>DEVICE_CAMERA_BUSY_ACQUIRING\<close> and changes nothing: the adapter, and with it the
  target count, interval, frame counters and start times of the run, is as before.
\<close>

theorem StartSequenceAcquisition_busy_while_running:
  assumes "acquisition_state_of cam = Running"
  shows "StartSequenceAcquisition core cam n interval_ms stopOnOverflow'
           = (DEVICE_CAMERA_BUSY_ACQUIRING, cam)"
proof -
  have "\<not> stop (thd cam)"
    using assms by (simp add: acquisition_state_of_def split: if_splits)
  then show ?thesis
    by (simp add: StartSequenceAcquisition_def IsCapturing_def IsStopped_def)
qed

text \<open>The theorem of C9 on a running acquisition of 100 frames.\<close>

theorem StartSequenceAcquisition_busy_witness:
  "acquisition_state_of running_100 = Running
   \<and> StartSequenceAcquisition plain_core running_100 5 (Finite 50) False
       = (DEVICE_CAMERA_BUSY_ACQUIRING, running_100)"
proof -
  have r: "acquisition_state_of running_100 = Running"
    by (simp add: acquisition_state_of_def running_100_eq)
  show ?thesis
    using StartSequenceAcquisition_busy_while_running [OF r, of plain_core 5 "Finite 50" False] r
    by simp
qed

text \<open>
  Claim C9 as stated fails while stopping: once \<open>Stop()\<close> has set the stop flag and the
  thread is still running, a second \<open>StartSequenceAcquisition\<close> returns \<open>DEVICE_OK\<close>
  and overwrites the target count, the interval and the start times of the run.
\<close>

theorem StartSequenceAcquisition_while_stopping:
  "acquisition_state_of stopping_100 = Stopping
   \<and> run_parameters stopping_100 = (100, Finite 100, 0, 0, 0, 0)
   \<and> code_and_parameters
        (StartSequenceAcquisition (plain_core\<lparr>GetCurrentMMTime := 7\<rparr>) stopping_100 5
           (Finite 50) False)
       = (DEVICE_OK, 5, Finite 50, 0, 0, 7, 7)"
  by (simp add: acquisition_state_of_def run_parameters_def code_and_parameters_def
      stopping_100_def running_100_eq run_defs camera_defs double_defs)

subsection \<open>The worker loop\<close>

lemmas svc_defs =
  svc_def OnThreadExiting_def peak_Acquisition_Start_def peak_Acquisition_Stop_def LONG_MAX_def
  RunSequenceOnThread_def double_to_uint32_def peak_Acquisition_WaitForFrame_def
  transferBuffer_def InsertImage_def updateAutoWhiteBalance_def
  wait_times_out_def frame_arrives_def run_summary_def is_wait_def

text \<open>Every pass of the worker loop in which the wait for the frame does not succeed
  ends the loop with \<open>DEVICE_ERR\<close>, after that one wait.\<close>

lemma svc_loop_failed_wait:
  assumes "wait_status ev \<noteq> PEAK_STATUS_SUCCESS"
    and "svc_loop core cam (ev # evs) = Some (Inr (c, cam'))"
  shows "c = DEVICE_ERR
         \<and> length (filter is_wait (calls (hCam cam')))
             = Suc (length (filter is_wait (calls (hCam cam))))"
  using assms
  by (auto simp: RunSequenceOnThread_def peak_Acquisition_WaitForFrame_def Let_def is_wait_def
           Stop_def
           split: if_splits sum.splits)

text \<open>
  Claim C1 on the code: in a running acquisition of 100 frames the first wait times
  out. The worker does not wait again, although the frame would arrive on the next
  wait: \<open>svc\<close> returns \<open>DEVICE_ERR\<close>, not \<open>ERR_ACQ_TIMEOUT\<close>, after a single wait, with
  the stop flag set and one \<open>AcqFinished\<close> notification.
\<close>

theorem svc_first_timeout_ends_run:
  "acquisition_state_of running_100 = Running
   \<and> run_summary (svc plain_core running_100 [wait_times_out, frame_arrives])
       = Some (DEVICE_ERR, True, 1, 1)"
  by (simp add: acquisition_state_of_def running_100_eq svc_defs run_defs camera_defs double_defs)

text \<open>The wait of \<open>SnapImage\<close> does retry: 99 timeouts are waited out, the hundredth
  makes it return \<open>ERR_ACQ_TIMEOUT\<close>.\<close>

lemma SnapImage_wait_timeouts:
  "k + n \<le> 99 \<Longrightarrow>
   SnapImage_wait (replicate n PEAK_STATUS_TIMEOUT @ sts) k = SnapImage_wait sts (k + n)"
  by (induction n arbitrary: k) simp_all

lemma SnapImage_wait_retries:
  "SnapImage_wait (replicate 99 PEAK_STATUS_TIMEOUT @ [PEAK_STATUS_SUCCESS]) 0 = Some None"
  "SnapImage_wait (replicate 99 PEAK_STATUS_TIMEOUT @ [PEAK_STATUS_TIMEOUT]) 0
     = Some (Some ERR_ACQ_TIMEOUT)"
  by (simp_all add: SnapImage_wait_timeouts)

end
